theory Spec2Isabelle
  imports Complex_Main
begin

section \<open>Strings, lowercasing and the hexadecimal formats\<close>

text \<open>
  The services compare and store wallet addresses in lower case
  (\<^verbatim>\<open>walletAddress.toLowerCase()\<close>) and test them against the regular
  expression \<^verbatim>\<open>/^0x[a-fA-F0-9]{40}$/\<close>. A string is a list of characters, and a
  character is a code unit below 256 (Basic Latin and Latin-1); strings with other code
  units are not represented. \<open>toLowerCase\<close> maps the letters \<open>A\<close>..\<open>Z\<close> (codes 65 to 90)
  and the Latin-1 capitals (codes 192 to 222, without the multiplication sign 215) to the
  letter 32 codes higher, and leaves every other character as it is.
\<close>

definition toLowerChar :: "char \<Rightarrow> char" where
  "toLowerChar c =
     (let n = (of_char c :: nat)
      in if (65 \<le> n \<and> n \<le> 90) \<or> (192 \<le> n \<and> n \<le> 222 \<and> n \<noteq> 215) then char_of (n + 32)
         else c)"

definition toLowerCase :: "string \<Rightarrow> string" where
  "toLowerCase s = map toLowerChar s"

text \<open>The character class \<^verbatim>\<open>[a-fA-F0-9]\<close> of the source's expressions.\<close>

definition isHexChar :: "char \<Rightarrow> bool" where
  "isHexChar c =
     (let n = (of_char c :: nat)
      in (97 \<le> n \<and> n \<le> 102) \<or> (65 \<le> n \<and> n \<le> 70) \<or> (48 \<le> n \<and> n \<le> 57))"

text \<open>
  \<^verbatim>\<open>/^0x[a-fA-F0-9]{n}$/.test(s)\<close>: the two characters \<open>0x\<close>, then exactly \<open>n\<close>
  hexadecimal digits, and nothing else (without the \<^verbatim>\<open>m\<close> flag, \<^verbatim>\<open>$\<close> is the end
  of the input).
\<close>

definition matchesHex :: "nat \<Rightarrow> string \<Rightarrow> bool" where
  "matchesHex n s =
     (case s of
        c0 # c1 # digits \<Rightarrow>
          c0 = CHR ''0'' \<and> c1 = CHR ''x'' \<and> length digits = n \<and> list_all isHexChar digits
      | _ \<Rightarrow> False)"

text \<open>
  \<^verbatim>\<open>toUpperCase\<close>, used by the \<^verbatim>\<open>uppercase: true\<close> setter of a split's currency: the
  letters \<open>a\<close>..\<open>z\<close> and the Latin-1 small letters (codes 224 to 254, without the division
  sign 247) go to the letter 32 codes lower, and the sharp s (code 223) to the two letters
  \<open>SS\<close>. The two characters whose capital is above code 255 (codes 181 and 255) are left as
  they are; a currency with one of them matches no currency name before or after.
\<close>

definition toUpperChar :: "char \<Rightarrow> char" where
  "toUpperChar c =
     (let n = (of_char c :: nat)
      in if (97 \<le> n \<and> n \<le> 122) \<or> (224 \<le> n \<and> n \<le> 254 \<and> n \<noteq> 247) then char_of (n - 32)
         else c)"

definition toUpperChars :: "char \<Rightarrow> string" where
  "toUpperChars c = (if (of_char c :: nat) = 223 then ''SS'' else [toUpperChar c])"

definition toUpperCase :: "string \<Rightarrow> string" where
  "toUpperCase s = concat (map toUpperChars s)"

definition isWalletAddress :: "string \<Rightarrow> bool" where
  "isWalletAddress s = matchesHex 40 s"

definition isSignatureFormat :: "string \<Rightarrow> bool" where
  "isSignatureFormat s = matchesHex 130 s"

definition isTxHashFormat :: "string \<Rightarrow> bool" where
  "isTxHashFormat s = matchesHex 64 s"

text \<open>
  The specification's expression for a normalised address, \<^verbatim>\<open>/^0x[0-9a-f]{40}$/\<close>:
  this one is written from the specification, to be compared with what the code's
  lowercasing and format test produce.
\<close>

definition isLowerHexChar :: "char \<Rightarrow> bool" where
  "isLowerHexChar c =
     (let n = (of_char c :: nat) in (48 \<le> n \<and> n \<le> 57) \<or> (97 \<le> n \<and> n \<le> 102))"

definition spec_normalized_address :: "string \<Rightarrow> bool" where
  "spec_normalized_address s =
     (case s of
        c0 # c1 # digits \<Rightarrow>
          c0 = CHR ''0'' \<and> c1 = CHR ''x'' \<and> length digits = 40 \<and> list_all isLowerHexChar digits
      | _ \<Rightarrow> False)"

text \<open>
  \<^verbatim>\<open>String.prototype.trim\<close>, used by the schemas' \<^verbatim>\<open>trim: true\<close> setters: white space
  is removed at both ends. The white space characters below 256 are the codes 9 to 13, the
  space 32 and the no-break space 160.
\<close>

definition isWhiteSpace :: "char \<Rightarrow> bool" where
  "isWhiteSpace c = (let n = (of_char c :: nat) in (9 \<le> n \<and> n \<le> 13) \<or> n = 32 \<or> n = 160)"

definition trim :: "string \<Rightarrow> string" where
  "trim s = rev (dropWhile isWhiteSpace (rev (dropWhile isWhiteSpace s)))"

section \<open>Numbers\<close>

text \<open>
  A JavaScript number is an IEEE 754 binary64 value: a finite value (a rational with a
  53-bit significand), an infinity or NaN. The two zeros are one value here; no operation
  below tells them apart. Arithmetic rounds the exact result to the nearest double, ties
  to the even significand, and overflows to an infinity.
\<close>

datatype double = Fin rat | PInf | NInf | NaN

definition pow2 :: "int \<Rightarrow> rat" where
  "pow2 e = (if 0 \<le> e then 2 ^ nat e else 1 / 2 ^ nat (- e))"

text \<open>
  The binary exponent of a non-zero rational, \<open>\<lfloor>log\<^sub>2 \<bar>x\<bar>\<rfloor>\<close>, by halving or doubling;
  1100 steps reach every exponent a double has.
\<close>

fun scaleDown :: "rat \<Rightarrow> nat \<Rightarrow> int" where
  "scaleDown x 0 = 0"
| "scaleDown x (Suc n) = (if x < 2 then 0 else scaleDown (x / 2) n + 1)"

fun scaleUp :: "rat \<Rightarrow> nat \<Rightarrow> int" where
  "scaleUp x 0 = 0"
| "scaleUp x (Suc n) = (if 1 \<le> x then 0 else scaleUp (2 * x) n - 1)"

definition binaryExponent :: "rat \<Rightarrow> int" where
  "binaryExponent x = (if 1 \<le> \<bar>x\<bar> then scaleDown \<bar>x\<bar> 1100 else scaleUp \<bar>x\<bar> 1100)"

text \<open>
  The distance between neighbouring doubles around \<open>x\<close> (the exponent does not go below
  that of the smallest normal number), rounding to the nearest integer with ties to even,
  and the rounding of a rational to a double.
\<close>

definition quantum :: "rat \<Rightarrow> rat" where
  "quantum x = pow2 (max (binaryExponent x) (- 1022) - 52)"

definition roundHalfEven :: "rat \<Rightarrow> int" where
  "roundHalfEven r =
     (let f = \<lfloor>r\<rfloor>; d = r - of_int f
      in if d < 1 / 2 then f else if 1 / 2 < d then f + 1 else if even f then f else f + 1)"

definition roundToDouble :: "rat \<Rightarrow> rat" where
  "roundToDouble x = (if x = 0 then 0 else of_int (roundHalfEven (x / quantum x)) * quantum x)"

definition dround :: "rat \<Rightarrow> double" where
  "dround x =
     (let r = roundToDouble x
      in if 2 ^ 1024 \<le> r then PInf else if r \<le> - (2 ^ 1024) then NInf else Fin r)"

text \<open>The operators \<^verbatim>\<open>+\<close>, unary and binary \<^verbatim>\<open>-\<close>, \<^verbatim>\<open>Math.abs\<close>, \<^verbatim>\<open><\<close>, \<^verbatim>\<open>>\<close> and \<^verbatim>\<open>>=\<close>.\<close>

fun dadd :: "double \<Rightarrow> double \<Rightarrow> double" where
  "dadd NaN b = NaN"
| "dadd a NaN = NaN"
| "dadd (Fin a) (Fin b) = dround (a + b)"
| "dadd PInf NInf = NaN"
| "dadd NInf PInf = NaN"
| "dadd PInf b = PInf"
| "dadd a PInf = PInf"
| "dadd NInf b = NInf"
| "dadd a NInf = NInf"

fun dneg :: "double \<Rightarrow> double" where
  "dneg (Fin a) = Fin (- a)"
| "dneg PInf = NInf"
| "dneg NInf = PInf"
| "dneg NaN = NaN"

definition dsub :: "double \<Rightarrow> double \<Rightarrow> double" where
  "dsub a b = dadd a (dneg b)"

fun dabs :: "double \<Rightarrow> double" where
  "dabs (Fin a) = Fin \<bar>a\<bar>"
| "dabs PInf = PInf"
| "dabs NInf = PInf"
| "dabs NaN = NaN"

fun dless :: "double \<Rightarrow> double \<Rightarrow> bool" where
  "dless NaN b = False"
| "dless a NaN = False"
| "dless (Fin a) (Fin b) = (a < b)"
| "dless a NInf = False"
| "dless NInf b = True"
| "dless PInf b = False"
| "dless a PInf = True"

definition dgt :: "double \<Rightarrow> double \<Rightarrow> bool" where
  "dgt a b = dless b a"

definition dge :: "double \<Rightarrow> double \<Rightarrow> bool" where
  "dge a b = (if a = NaN then False else if a = b then True else dless b a)"

text \<open>
  \<^verbatim>\<open>Number(n)\<close> of a \<^verbatim>\<open>bigint\<close>, and the literal \<^verbatim>\<open>0.01\<close>.
\<close>

definition numberOfBigInt :: "int \<Rightarrow> double" where
  "numberOfBigInt n = dround (of_int n)"

definition double_cent :: double where
  "double_cent = dround (1 / 100)"

text \<open>
  The order in which the store sorts numbers: NaN first, then by value. It is the order
  \<^verbatim>\<open>.sort({ splitId: -1 })\<close> reverses.
\<close>

definition sortsBefore :: "double \<Rightarrow> double \<Rightarrow> bool" where
  "sortsBefore a b = (if a = NaN then b \<noteq> NaN else dless a b)"

text \<open>
  The value of a double as a rational, for statements that compare the code's arithmetic
  with exact arithmetic (\<open>0\<close> for what is not finite), and the statement that a rational is
  a finite double.
\<close>

definition exactValue :: "double \<Rightarrow> rat" where
  "exactValue d = (case d of Fin r \<Rightarrow> r | _ \<Rightarrow> 0)"



section \<open>Errors\<close>

text \<open>
  Every \<^verbatim>\<open>throw new Error(...)\<close> of the services and models is a constructor, named after
  its message; \<open>ValidationError\<close> and \<open>DuplicateKey\<close> are what the document mapper and
  the store raise when a schema validator or a unique index rejects a new document, and
  \<open>WriteFailed\<close> is any other failure of a write.
\<close>

datatype error =
    InvalidCreatorAddress
  | NoParticipants
  | TooManyParticipants
  | AmountMismatch
  | InvalidParticipantAddress string
  | UnableToGenerateSplitId
  | DeployFailed
  | TxHashExists string
  | ValidationError
  | DuplicateKey
  | WriteFailed
  | CredentialsRequired
  | InvalidWalletAddress
  | InvalidSignatureFormat
  | SignatureMismatch

section \<open>Data model\<close>

text \<open>
  \<^verbatim>\<open>IParticipant\<close>, \<^verbatim>\<open>ISplit\<close> and \<^verbatim>\<open>IUser\<close> of the models. Fields of type
  \<^verbatim>\<open>number\<close> are doubles; dates are milliseconds since the epoch. Left out are the fields
  no operation below reads or writes to a value other than its default: \<^verbatim>\<open>category\<close>,
  \<^verbatim>\<open>note\<close>, \<^verbatim>\<open>imageUrl\<close>, \<^verbatim>\<open>expiresAt\<close> and \<^verbatim>\<open>updatedAt\<close> of a split, \<^verbatim>\<open>email\<close>,
  \<^verbatim>\<open>username\<close>, \<^verbatim>\<open>avatarUrl\<close>, \<^verbatim>\<open>totalAmountSplit\<close> and the timestamps of a user.
\<close>

record participant =
  walletAddress :: string
  name :: "string option"
  amountDue :: double
  hasPaid :: bool
  paidAt :: "nat option"
  paymentTxHash :: "string option"
  reminderCount :: double
  lastRemindedAt :: "nat option"

datatype split_status = Pending | Active | Completed | Cancelled

record split =
  splitId :: double
  contractAddress :: string
  txHash :: string
  blockNumber :: double
  isConfirmed :: bool
  creatorAddress :: string
  description :: string
  totalAmount :: double
  currency :: string
  status :: split_status
  isCompleted :: bool
  isCancelled :: bool
  participants :: "participant list"
  createdAt :: nat
  completedAt :: "nat option"
  cancelledAt :: "nat option"

record user =
  userId :: nat
  userWallet :: string
  displayName :: string
  totalSplitsCreated :: double
  totalSplitsJoined :: double
  lastActiveAt :: nat

text \<open>The status as the store holds it and as a query names it.\<close>

fun statusName :: "split_status \<Rightarrow> string" where
  "statusName Pending = ''pending''"
| "statusName Active = ''active''"
| "statusName Completed = ''completed''"
| "statusName Cancelled = ''cancelled''"

text \<open>
  \<^verbatim>\<open>document.save()\<close> of an existing document: the save succeeds or throws;
  \<open>saveOk\<close> is the outcome. The document comes back as it was passed.
\<close>

definition saveDocument :: "bool \<Rightarrow> 'a \<Rightarrow> error + 'a" where
  "saveDocument saveOk doc = (if saveOk then Inr doc else Inl WriteFailed)"

section \<open>Split model: instance methods\<close>

text \<open>\<^verbatim>\<open>SplitSchema.methods.updateStatus\<close>.\<close>

definition updateStatus :: "bool \<Rightarrow> nat \<Rightarrow> split_status \<Rightarrow> split \<Rightarrow> error + split" where
  "updateStatus saveOk now newStatus s =
     saveDocument saveOk
       (s\<lparr> status := newStatus,
           isCompleted := (newStatus = Completed),
           isCancelled := (newStatus = Cancelled),
           completedAt :=
             (if newStatus = Completed \<and> completedAt s = None then Some now else completedAt s),
           cancelledAt :=
             (if newStatus = Cancelled \<and> cancelledAt s = None then Some now else cancelledAt s) \<rparr>)"

text \<open>\<^verbatim>\<open>SplitSchema.methods.checkAndUpdateCompletion\<close>.\<close>

definition checkAndUpdateCompletion :: "bool \<Rightarrow> nat \<Rightarrow> split \<Rightarrow> error + split" where
  "checkAndUpdateCompletion saveOk now s =
     (let allPaid = list_all hasPaid (participants s)
      in if allPaid \<and> length (participants s) > 0 \<and> \<not> isCompleted s
         then updateStatus saveOk now Completed s
         else Inr s)"

section \<open>Split model: queries\<close>

text \<open>
  The collection of splits is the list of its documents, oldest insertion first.
  \<^verbatim>\<open>findBySplitId\<close>, \<^verbatim>\<open>findByTxHash\<close> (which lowercases the hash it looks for) and
  \<^verbatim>\<open>Split.findOne().sort({ splitId: -1 })\<close>, the document that sorts last by identifier.
\<close>

definition findBySplitId :: "split list \<Rightarrow> double \<Rightarrow> split option" where
  "findBySplitId store sid = find (\<lambda>s. splitId s = sid) store"

definition findByTxHash :: "split list \<Rightarrow> string \<Rightarrow> split option" where
  "findByTxHash store h = find (\<lambda>s. txHash s = toLowerCase h) store"

definition findMaxSplit :: "split list \<Rightarrow> split option" where
  "findMaxSplit store =
     (case store of
        [] \<Rightarrow> None
      | s # ss \<Rightarrow> Some (fold (\<lambda>t m. if sortsBefore (splitId m) (splitId t) then t else m) ss s))"

text \<open>
  The options of a listing query: skip and limit are counts. A field that is absent, \<open>0\<close>
  or the empty string is falsy in the source's tests (\<^verbatim>\<open>if (options?.limit)\<close>) and is then
  not applied.
\<close>

record query_options =
  opt_status :: "string option"
  opt_limit :: "nat option"
  opt_skip :: "nat option"

definition truthyString :: "string option \<Rightarrow> bool" where
  "truthyString v = (case v of None \<Rightarrow> False | Some s \<Rightarrow> s \<noteq> [])"

text \<open>
  \<^verbatim>\<open>.sort({ createdAt: -1 })\<close> and the comparator \<^verbatim>\<open>dateB - dateA\<close>: newest first,
  documents of the same date in the order they had (the array sort is stable).
\<close>

definition sortNewestFirst :: "split list \<Rightarrow> split list" where
  "sortNewestFirst xs = sort_key (\<lambda>s. - int (createdAt s)) xs"

definition matchesStatus :: "query_options \<Rightarrow> split \<Rightarrow> bool" where
  "matchesStatus options s =
     (if truthyString (opt_status options) then Some (statusName (status s)) = opt_status options
      else True)"

text \<open>
  The query builder of \<^verbatim>\<open>findByCreator\<close> and \<^verbatim>\<open>findByParticipant\<close>: the store skips
  before it limits, in whichever order \<^verbatim>\<open>.limit()\<close> and \<^verbatim>\<open>.skip()\<close> were called.
\<close>

definition runQuery :: "query_options \<Rightarrow> split list \<Rightarrow> split list" where
  "runQuery options matching =
     (let sorted = sortNewestFirst matching;
          skipped = (case opt_skip options of
                       Some k \<Rightarrow> if k \<noteq> 0 then drop k sorted else sorted
                     | None \<Rightarrow> sorted)
      in case opt_limit options of
           Some l \<Rightarrow> if l \<noteq> 0 then take l skipped else skipped
         | None \<Rightarrow> skipped)"

definition findByCreator :: "split list \<Rightarrow> string \<Rightarrow> query_options \<Rightarrow> split list" where
  "findByCreator store creator options =
     runQuery options
       (filter (\<lambda>s. creatorAddress s = toLowerCase creator \<and> matchesStatus options s) store)"

definition findByParticipant :: "split list \<Rightarrow> string \<Rightarrow> query_options \<Rightarrow> split list" where
  "findByParticipant store wallet options =
     runQuery options
       (filter (\<lambda>s. list_ex (\<lambda>p. walletAddress p = toLowerCase wallet) (participants s)
                    \<and> matchesStatus options s) store)"

section \<open>User model\<close>

text \<open>\<^verbatim>\<open>usersModel.findByWallet\<close>, \<^verbatim>\<open>incrementSplitCreated\<close> and \<^verbatim>\<open>updateActivity\<close>.\<close>

definition findByWallet :: "user list \<Rightarrow> string \<Rightarrow> user option" where
  "findByWallet users w = find (\<lambda>u. userWallet u = toLowerCase w) users"

definition replaceUser :: "user \<Rightarrow> user list \<Rightarrow> user list" where
  "replaceUser u users = map (\<lambda>v. if userId v = userId u then u else v) users"

definition incrementSplitCreated :: "bool \<Rightarrow> nat \<Rightarrow> user \<Rightarrow> error + user" where
  "incrementSplitCreated saveOk now u =
     saveDocument saveOk
       (u\<lparr> totalSplitsCreated := dadd (totalSplitsCreated u) (Fin 1), lastActiveAt := now \<rparr>)"

definition updateActivity :: "bool \<Rightarrow> nat \<Rightarrow> user \<Rightarrow> error + user" where
  "updateActivity saveOk now u = saveDocument saveOk (u\<lparr> lastActiveAt := now \<rparr>)"

section \<open>Split model: creating a document\<close>

text \<open>
  \<^verbatim>\<open>Split.create(doc)\<close>. The schema's setters run when the document is built
  (\<^verbatim>\<open>trim\<close>, \<^verbatim>\<open>lowercase\<close>, \<^verbatim>\<open>uppercase\<close>), then its validators (a number that is NaN fails
  them, as it fails the cast); a document that passes goes through the pre-save hook that
  lowercases the addresses and hashes, is stamped with its creation date and inserted,
  unless the write fails or a unique index (\<^verbatim>\<open>splitId\<close>, \<^verbatim>\<open>txHash\<close>) already holds its
  key. The pre-save hook that compares the amounts only warns.
\<close>

definition applyParticipantSetters :: "participant \<Rightarrow> participant" where
  "applyParticipantSetters p =
     p\<lparr> walletAddress := toLowerCase (trim (walletAddress p)),
        name := map_option trim (name p),
        paymentTxHash := map_option trim (paymentTxHash p) \<rparr>"

definition applySplitSetters :: "split \<Rightarrow> split" where
  "applySplitSetters d =
     d\<lparr> contractAddress := toLowerCase (trim (contractAddress d)),
        txHash := trim (txHash d),
        creatorAddress := toLowerCase (trim (creatorAddress d)),
        description := trim (description d),
        currency := toUpperCase (trim (currency d)),
        participants := map applyParticipantSetters (participants d) \<rparr>"

definition validParticipant :: "participant \<Rightarrow> bool" where
  "validParticipant p =
     (isWalletAddress (walletAddress p)
      \<and> (case name p of None \<Rightarrow> True | Some n \<Rightarrow> length n \<le> 100)
      \<and> dge (amountDue p) (Fin 0)
      \<and> (case paymentTxHash p of None \<Rightarrow> True | Some h \<Rightarrow> h = [] \<or> isTxHashFormat h)
      \<and> dge (reminderCount p) (Fin 0))"

definition validSplit :: "split \<Rightarrow> bool" where
  "validSplit d =
     (dge (splitId d) (Fin 0)
      \<and> isWalletAddress (contractAddress d)
      \<and> isTxHashFormat (txHash d)
      \<and> dge (blockNumber d) (Fin 0)
      \<and> isWalletAddress (creatorAddress d)
      \<and> 1 \<le> length (description d) \<and> length (description d) \<le> 500
      \<and> dge (totalAmount d) double_cent
      \<and> currency d \<in> set [''USDC'', ''USDT'', ''DAI'', ''ETH'']
      \<and> 0 < length (participants d) \<and> length (participants d) \<le> 50
      \<and> list_all validParticipant (participants d))"

definition preSaveLowercase :: "split \<Rightarrow> split" where
  "preSaveLowercase d =
     d\<lparr> creatorAddress := toLowerCase (creatorAddress d),
        contractAddress := toLowerCase (contractAddress d),
        txHash := toLowerCase (txHash d),
        participants :=
          map (\<lambda>p. p\<lparr> walletAddress := toLowerCase (walletAddress p),
                       paymentTxHash := map_option toLowerCase (paymentTxHash p) \<rparr>)
              (participants d) \<rparr>"

definition Split_create ::
  "bool \<Rightarrow> nat \<Rightarrow> split list \<Rightarrow> split \<Rightarrow> error + (split \<times> split list)" where
  "Split_create insertOk now store doc =
     (let built = applySplitSetters doc
      in if \<not> validSplit built then Inl ValidationError
         else
           (let d = (preSaveLowercase built)\<lparr> createdAt := now \<rparr>
            in if \<not> insertOk then Inl WriteFailed
               else if list_ex (\<lambda>s. splitId s = splitId d \<or> txHash s = txHash d) store
                    then Inl DuplicateKey
               else Inr (d, store @ [d])))"

section \<open>Split service: creation\<close>

text \<open>
  The input of \<^verbatim>\<open>createSplit\<close> (\<^verbatim>\<open>CreateSplitInput\<close>), what the blockchain collaborator
  \<^verbatim>\<open>deploySplitContract\<close> returns (its identifier is a \<^verbatim>\<open>bigint\<close>), and what
  \<^verbatim>\<open>createSplit\<close> returns.
\<close>

record participant_input =
  in_walletAddress :: string
  in_name :: "string option"
  in_amountDue :: double

record create_split_input =
  in_description :: string
  in_totalAmount :: double
  in_participants :: "participant_input list"

record blockchain_result =
  bc_splitId :: int
  bc_splitAddress :: string
  bc_txHash :: string
  bc_blockNumber :: double
  bc_isConfirmed :: bool

record create_result =
  res_splitId :: double
  res_contractAddress :: string
  res_txHash :: string

text \<open>
  What \<^verbatim>\<open>createSplit\<close> gets from outside: the blockchain collaborator (called with the
  creator, the description, the participants and the total; it returns its result or
  throws), the clock, and whether the store accepts the insert of the split and the save
  of the creator's counters.
\<close>

record create_env =
  env_deploy :: "string \<Rightarrow> string \<Rightarrow> participant_input list \<Rightarrow> double \<Rightarrow> error + blockchain_result"
  env_now :: nat
  env_insertOk :: bool
  env_statsOk :: bool

text \<open>
  Lines 49 to 82: the creator's address, the number of participants, the sum of the amounts
  (\<^verbatim>\<open>reduce\<close> from \<open>0\<close>, in double arithmetic) against the total, and each participant's
  address, in this order. The result is the normalised creator.
\<close>

definition calculatedTotal :: "participant_input list \<Rightarrow> double" where
  "calculatedTotal ps = foldl (\<lambda>sum p. dadd sum (in_amountDue p)) (Fin 0) ps"

definition amountsMismatch :: "create_split_input \<Rightarrow> bool" where
  "amountsMismatch splitData =
     dgt (dabs (dsub (calculatedTotal (in_participants splitData)) (in_totalAmount splitData)))
         double_cent"

definition validateCreateSplit :: "string \<Rightarrow> create_split_input \<Rightarrow> error + string" where
  "validateCreateSplit creator splitData =
     (let normalizedCreator = toLowerCase creator
      in if \<not> isWalletAddress normalizedCreator then Inl InvalidCreatorAddress
         else if length (in_participants splitData) = 0 then Inl NoParticipants
         else if length (in_participants splitData) > 50 then Inl TooManyParticipants
         else if amountsMismatch splitData then Inl AmountMismatch
         else
           (case find (\<lambda>p. \<not> isWalletAddress (toLowerCase (in_walletAddress p)))
                      (in_participants splitData) of
              Some p \<Rightarrow> Inl (InvalidParticipantAddress (in_walletAddress p))
            | None \<Rightarrow> Inr normalizedCreator))"

text \<open>
  Lines 84 to 99: the candidate is the largest identifier plus one (a double addition), or
  \<open>1\<close> in an empty collection; while the candidate is taken and fewer than 100 attempts
  were made, it is incremented and looked up again. Other requests may insert between the
  query for the largest identifier and the lookups, so the allocation takes the collection
  as the first query saw it and the collection as the lookups see it; a request that runs
  alone sees the same collection twice.
\<close>

function probeSplitId :: "(double \<Rightarrow> bool) \<Rightarrow> double \<Rightarrow> nat \<Rightarrow> double \<times> nat" where
  "probeSplitId taken sid attempts =
     (if taken sid \<and> attempts < 100 then probeSplitId taken (dadd sid (Fin 1)) (attempts + 1)
      else (sid, attempts))"
  by pat_completeness auto
termination
  by (relation "measure (\<lambda>(taken, sid, attempts). 100 - attempts)") auto

declare probeSplitId.simps [simp del]

definition generateSplitId :: "double option \<Rightarrow> (double \<Rightarrow> bool) \<Rightarrow> error + double" where
  "generateSplitId maxSplitId taken =
     (let candidate = (case maxSplitId of Some m \<Rightarrow> dadd m (Fin 1) | None \<Rightarrow> Fin 1);
          (sid, attempts) = probeSplitId taken candidate 0
      in if attempts \<ge> 100 then Inl UnableToGenerateSplitId else Inr sid)"

definition allocateSplitId :: "split list \<Rightarrow> split list \<Rightarrow> error + double" where
  "allocateSplitId seen store =
     generateSplitId (map_option splitId (findMaxSplit seen))
                     (\<lambda>sid. findBySplitId store sid \<noteq> None)"

text \<open>
  Lines 116 to 153, the steps after the deployment: the final identifier (the blockchain's,
  converted to a number, when it is not \<open>0\<close>, else the allocated one), the check of the
  transaction hash, and the creation of the document.
\<close>

definition finalSplitId :: "blockchain_result \<Rightarrow> double \<Rightarrow> double" where
  "finalSplitId bc sid = (if bc_splitId bc \<noteq> 0 then numberOfBigInt (bc_splitId bc) else sid)"

definition newParticipant :: "participant_input \<Rightarrow> participant" where
  "newParticipant p =
     \<lparr> walletAddress = toLowerCase (in_walletAddress p), name = in_name p,
       amountDue = in_amountDue p, hasPaid = False, paidAt = None, paymentTxHash = None,
       reminderCount = Fin 0, lastRemindedAt = None \<rparr>"

definition newSplit ::
  "nat \<Rightarrow> string \<Rightarrow> create_split_input \<Rightarrow> blockchain_result \<Rightarrow> double \<Rightarrow> split" where
  "newSplit now normalizedCreator splitData bc sid =
     \<lparr> splitId = finalSplitId bc sid,
       contractAddress = toLowerCase (bc_splitAddress bc),
       txHash = toLowerCase (bc_txHash bc),
       blockNumber = bc_blockNumber bc,
       isConfirmed = bc_isConfirmed bc,
       creatorAddress = normalizedCreator,
       description = in_description splitData,
       totalAmount = in_totalAmount splitData,
       currency = ''USDC'',
       status = (if bc_isConfirmed bc then Active else Pending),
       isCompleted = False,
       isCancelled = False,
       participants = map newParticipant (in_participants splitData),
       createdAt = now,
       completedAt = None,
       cancelledAt = None \<rparr>"

definition persistSplit ::
  "create_env \<Rightarrow> split list \<Rightarrow> string \<Rightarrow> create_split_input \<Rightarrow> blockchain_result \<Rightarrow> double
     \<Rightarrow> error + (split \<times> split list)" where
  "persistSplit env store normalizedCreator splitData bc sid =
     (if findByTxHash store (bc_txHash bc) \<noteq> None then Inl (TxHashExists (bc_txHash bc))
      else Split_create (env_insertOk env) (env_now env) store
             (newSplit (env_now env) normalizedCreator splitData bc sid))"

text \<open>
  Lines 155 to 164: the creator's counter; a failure here is logged and nothing else.
\<close>

definition updateCreatorStats :: "create_env \<Rightarrow> user list \<Rightarrow> string \<Rightarrow> user list" where
  "updateCreatorStats env users normalizedCreator =
     (case findByWallet users normalizedCreator of
        None \<Rightarrow> users
      | Some creator \<Rightarrow>
          (case incrementSplitCreated (env_statsOk env) (env_now env) creator of
             Inl e \<Rightarrow> users
           | Inr creator' \<Rightarrow> replaceUser creator' users))"

text \<open>
  \<^verbatim>\<open>SplitService.createSplit\<close>, with the collections of splits and users passed in and
  returned. An error thrown before the deployment returned is thrown on; one thrown after
  it is caught, and the result is built from the blockchain's answer (lines 172 to 189).
\<close>

definition createSplit ::
  "create_env \<Rightarrow> split list \<Rightarrow> user list \<Rightarrow> string \<Rightarrow> create_split_input
     \<Rightarrow> (error + create_result) \<times> split list \<times> user list" where
  "createSplit env store users creator splitData =
     (case validateCreateSplit creator splitData of
        Inl e \<Rightarrow> (Inl e, store, users)
      | Inr normalizedCreator \<Rightarrow>
     (case allocateSplitId store store of
        Inl e \<Rightarrow> (Inl e, store, users)
      | Inr sid \<Rightarrow>
     (case env_deploy env normalizedCreator (in_description splitData)
             (in_participants splitData) (in_totalAmount splitData) of
        Inl e \<Rightarrow> (Inl e, store, users)
      | Inr bc \<Rightarrow>
     (case persistSplit env store normalizedCreator splitData bc sid of
        Inl e \<Rightarrow>
          (Inr \<lparr> res_splitId =
                   (if bc_splitId bc \<noteq> 0 then numberOfBigInt (bc_splitId bc) else sid),
                 res_contractAddress = bc_splitAddress bc,
                 res_txHash = bc_txHash bc \<rparr>, store, users)
      | Inr (split, store') \<Rightarrow>
          (Inr \<lparr> res_splitId = splitId split,
                 res_contractAddress = contractAddress split,
                 res_txHash = txHash split \<rparr>,
           store', updateCreatorStats env users normalizedCreator)))))"

text \<open>
  The placeholder variant of \<^verbatim>\<open>createSplit\<close> (the second version of the service): no
  deployment; the contract address is the zero address, the transaction hash and the block
  number are drawn at random (\<open>mockTxHash\<close>, \<open>regenerated\<close> and \<open>mockBlockNumber\<close> are the
  draws), and a hash that is already stored is replaced by the second draw. It returns the
  identifier and the contract address, and catches nothing.
\<close>

definition createSplitPlaceholder ::
  "create_env \<Rightarrow> string \<Rightarrow> string \<Rightarrow> double \<Rightarrow> split list \<Rightarrow> user list \<Rightarrow> string
     \<Rightarrow> create_split_input \<Rightarrow> (error + double \<times> string) \<times> split list \<times> user list" where
  "createSplitPlaceholder env mockTxHash regenerated mockBlockNumber store users
       creator splitData =
     (case validateCreateSplit creator splitData of
        Inl e \<Rightarrow> (Inl e, store, users)
      | Inr normalizedCreator \<Rightarrow>
     (case allocateSplitId store store of
        Inl e \<Rightarrow> (Inl e, store, users)
      | Inr sid \<Rightarrow>
     (let finalTxHash = (if findByTxHash store mockTxHash \<noteq> None then regenerated
                         else mockTxHash);
          mock = \<lparr> bc_splitId = 0,
                   bc_splitAddress = ''0x0000000000000000000000000000000000000000'',
                   bc_txHash = finalTxHash, bc_blockNumber = mockBlockNumber,
                   bc_isConfirmed = False \<rparr>
      in case Split_create (env_insertOk env) (env_now env) store
                (newSplit (env_now env) normalizedCreator splitData mock sid) of
           Inl e \<Rightarrow> (Inl e, store, users)
         | Inr (split, store') \<Rightarrow>
             (Inr (splitId split, contractAddress split),
              store', updateCreatorStats env users normalizedCreator))))"

section \<open>Split service: retrieval\<close>

text \<open>
  What \<^verbatim>\<open>getSplits\<close> and \<^verbatim>\<open>getSplitsByParticipant\<close> add to a split for the requester:
  \<^verbatim>\<open>isCreator\<close>, the creator's name and address when the requester is not the creator,
  \<^verbatim>\<open>youPaid\<close>, and \<^verbatim>\<open>paid\<close> on the requester's own participant entry.
\<close>

record enriched_participant =
  ep_participant :: participant
  ep_paid :: "bool option"

record enriched_split =
  es_split :: split
  es_isCreator :: bool
  es_creatorName :: "string option"
  es_creatorAddress :: "string option"
  es_youPaid :: bool
  es_participants :: "enriched_participant list"

definition enrichSplit :: "user list \<Rightarrow> string \<Rightarrow> split \<Rightarrow> enriched_split" where
  "enrichSplit users normalizedRequester s =
     (let isCreator = (toLowerCase (creatorAddress s) = normalizedRequester);
          creator = (if isCreator then None else findByWallet users (creatorAddress s));
          requesterParticipant =
            find (\<lambda>p. toLowerCase (walletAddress p) = normalizedRequester) (participants s)
      in \<lparr> es_split = s,
            es_isCreator = isCreator,
            es_creatorName = (if isCreator then None else map_option displayName creator),
            es_creatorAddress = (if isCreator then None else Some (creatorAddress s)),
            es_youPaid =
              (if isCreator then True
               else (case requesterParticipant of None \<Rightarrow> False | Some p \<Rightarrow> hasPaid p)),
            es_participants =
              map (\<lambda>p. \<lparr> ep_participant = p,
                          ep_paid = (if toLowerCase (walletAddress p) = normalizedRequester
                                     then Some (hasPaid p) else None) \<rparr>)
                  (participants s) \<rparr>)"

text \<open>\<^verbatim>\<open>getSplitById\<close>, \<^verbatim>\<open>getSplitsByCreator\<close> and \<^verbatim>\<open>getSplitsByParticipant\<close>.\<close>

definition getSplitById :: "split list \<Rightarrow> double \<Rightarrow> split option" where
  "getSplitById store sid = findBySplitId store sid"

definition getSplitsByCreator :: "split list \<Rightarrow> string \<Rightarrow> query_options \<Rightarrow> split list" where
  "getSplitsByCreator store creatorAddr options =
     findByCreator store (toLowerCase creatorAddr) options"

definition getSplitsByParticipant ::
  "split list \<Rightarrow> user list \<Rightarrow> string \<Rightarrow> query_options \<Rightarrow> enriched_split list" where
  "getSplitsByParticipant store users wallet options =
     map (enrichSplit users (toLowerCase wallet))
         (findByParticipant store (toLowerCase wallet) options)"

text \<open>
  The \<^verbatim>\<open>Map\<close> from identifiers to splits of \<^verbatim>\<open>getSplits\<close>: a key that is set again
  keeps its place and takes the new value; \<^verbatim>\<open>values()\<close> lists in the order of first
  insertion.
\<close>

fun mapSet :: "(double \<times> 'a) list \<Rightarrow> double \<Rightarrow> 'a \<Rightarrow> (double \<times> 'a) list" where
  "mapSet [] k v = [(k, v)]"
| "mapSet ((k', v') # m) k v = (if k' = k then (k, v) # m else (k', v') # mapSet m k v)"

definition mapValues :: "(double \<times> 'a) list \<Rightarrow> 'a list" where
  "mapValues m = map snd m"

text \<open>
  Lines 413 to 446 of \<^verbatim>\<open>getSplits\<close>: both queries are run with the caller's options, their
  results are put in the map, the values are sorted newest first, and then skip and limit
  are applied to the sorted list.
\<close>

definition mergedSplits :: "split list \<Rightarrow> string \<Rightarrow> query_options \<Rightarrow> split list" where
  "mergedSplits store normalizedAddress options =
     (let createdSplits = findByCreator store normalizedAddress options;
          participantSplits = findByParticipant store normalizedAddress options;
          splitMap = fold (\<lambda>s m. mapSet m (splitId s) s) participantSplits
                       (fold (\<lambda>s m. mapSet m (splitId s) s) createdSplits []);
          allSplits = sortNewestFirst (mapValues splitMap);
          skipped = (case opt_skip options of
                       Some k \<Rightarrow> if k \<noteq> 0 then drop k allSplits else allSplits
                     | None \<Rightarrow> allSplits)
      in case opt_limit options of
           Some l \<Rightarrow> if l \<noteq> 0 then take l skipped else skipped
         | None \<Rightarrow> skipped)"

definition getSplits ::
  "split list \<Rightarrow> user list \<Rightarrow> string \<Rightarrow> query_options \<Rightarrow> error + enriched_split list" where
  "getSplits store users wallet options =
     (let normalizedAddress = toLowerCase wallet
      in if \<not> isWalletAddress normalizedAddress then Inl InvalidWalletAddress
         else Inr (map (enrichSplit users normalizedAddress)
                       (mergedSplits store normalizedAddress options)))"

text \<open>
  The specification's reading of \<^verbatim>\<open>getSplits\<close>, written from its words: the union of the
  creator's and the participant's splits (the two listings without skip and limit),
  one split per identifier, newest first, and skip and limit applied once, after the merge.
\<close>

definition spec_getSplits :: "split list \<Rightarrow> string \<Rightarrow> query_options \<Rightarrow> split list" where
  "spec_getSplits store wallet options =
     (let unpaged = options\<lparr> opt_limit := None, opt_skip := None \<rparr>;
          createdSplits = getSplitsByCreator store wallet unpaged;
          participantSplits = findByParticipant store (toLowerCase wallet) unpaged;
          union = fold (\<lambda>s m. mapSet m (splitId s) s) participantSplits
                    (fold (\<lambda>s m. mapSet m (splitId s) s) createdSplits []);
          allSplits = sortNewestFirst (mapValues union);
          skipped = (case opt_skip options of
                       Some k \<Rightarrow> if k \<noteq> 0 then drop k allSplits else allSplits
                     | None \<Rightarrow> allSplits)
      in case opt_limit options of
           Some l \<Rightarrow> if l \<noteq> 0 then take l skipped else skipped
         | None \<Rightarrow> skipped)"

section \<open>Authentication service\<close>

text \<open>
  What \<^verbatim>\<open>verifyCredentials\<close> gets from outside: the recovery of the signer's address
  from a message and a signature (\<^verbatim>\<open>ethers.verifyMessage\<close>, which throws on a signature
  it cannot decode: \<open>None\<close>), the name generator, the token signer (applied to the wallet
  address, the display name and the user's identifier), the identifier the store gives
  a new user, the clock, and whether the store accepts the insert of a user and the save of
  the activity date.
\<close>

record auth_env =
  auth_recover :: "string \<Rightarrow> string \<Rightarrow> string option"
  auth_generateName :: "string \<Rightarrow> string"
  auth_sign :: "string \<Rightarrow> string \<Rightarrow> nat \<Rightarrow> string"
  auth_newId :: nat
  auth_now :: nat
  auth_insertOk :: bool
  auth_saveOk :: bool

record auth_result =
  out_walletAddress :: string
  out_displayName :: string
  out_token :: string

definition MESSAGE_TO_SIGN :: string where
  "MESSAGE_TO_SIGN =
     ''Welcome to Splyt!'' @ [CHR 0x0A, CHR 0x0A]
     @ ''Sign this message to authenticate and access your account.'' @ [CHR 0x0A, CHR 0x0A]
     @ ''This signature proves you own this wallet and allows secure access to your Splyt account.''
     @ [CHR 0x0A, CHR 0x0A]
     @ ''Platform: Splyt - Split Bills, Settle Instantly''"

text \<open>\<^verbatim>\<open>AuthService.verifySignature\<close>.\<close>

definition verifySignature ::
  "(string \<Rightarrow> string \<Rightarrow> string option) \<Rightarrow> string \<Rightarrow> string \<Rightarrow> string \<Rightarrow> bool" where
  "verifySignature recover message signature expectedAddress =
     (case recover message signature of
        None \<Rightarrow> False
      | Some recoveredAddress \<Rightarrow> toLowerCase recoveredAddress = toLowerCase expectedAddress)"

text \<open>
  \<^verbatim>\<open>usersModel.create\<close> as \<^verbatim>\<open>verifyCredentials\<close> calls it: setters, validators (the
  address format, a display name of 1 to 100 characters), then the insert, which the unique
  index on the wallet address can refuse.
\<close>

definition User_create ::
  "bool \<Rightarrow> nat \<Rightarrow> nat \<Rightarrow> user list \<Rightarrow> string \<Rightarrow> string \<Rightarrow> error + (user \<times> user list)" where
  "User_create insertOk newId now users wallet display =
     (let u = \<lparr> userId = newId, userWallet = toLowerCase (trim wallet),
                displayName = trim display, totalSplitsCreated = Fin 0, totalSplitsJoined = Fin 0,
                lastActiveAt = now \<rparr>
      in if \<not> isWalletAddress (userWallet u) then Inl ValidationError
         else if length (displayName u) = 0 then Inl ValidationError
         else if length (displayName u) > 100 then Inl ValidationError
         else if \<not> insertOk then Inl WriteFailed
         else if list_ex (\<lambda>v. userWallet v = userWallet u) users then Inl DuplicateKey
         else Inr (u, users @ [u]))"

text \<open>
  \<^verbatim>\<open>AuthService.verifyCredentials\<close>, with the collection of users passed in and returned.
\<close>

definition issueToken :: "auth_env \<Rightarrow> user list \<Rightarrow> user \<Rightarrow> (error + auth_result) \<times> user list" where
  "issueToken env users u =
     (let token = auth_sign env (userWallet u) (displayName u) (userId u)
      in case updateActivity (auth_saveOk env) (auth_now env) u of
           Inl e \<Rightarrow> (Inl e, users)
         | Inr u' \<Rightarrow>
             (Inr \<lparr> out_walletAddress = userWallet u', out_displayName = displayName u',
                    out_token = token \<rparr>,
              replaceUser u' users))"

definition verifyCredentials ::
  "auth_env \<Rightarrow> user list \<Rightarrow> string \<Rightarrow> string \<Rightarrow> (error + auth_result) \<times> user list" where
  "verifyCredentials env users wallet signature =
     (if wallet = [] \<or> signature = [] then (Inl CredentialsRequired, users)
      else
        (let normalizedAddress = toLowerCase wallet
         in if \<not> isWalletAddress normalizedAddress then (Inl InvalidWalletAddress, users)
            else if \<not> isSignatureFormat signature then (Inl InvalidSignatureFormat, users)
            else if \<not> verifySignature (auth_recover env) MESSAGE_TO_SIGN signature normalizedAddress
                 then (Inl SignatureMismatch, users)
            else
              (case findByWallet users normalizedAddress of
                 Some u \<Rightarrow> issueToken env users u
               | None \<Rightarrow>
                   (case User_create (auth_insertOk env) (auth_newId env) (auth_now env) users
                           normalizedAddress (auth_generateName env normalizedAddress) of
                      Inl e \<Rightarrow> (Inl e, users)
                    | Inr (u, users') \<Rightarrow> issueToken env users' u))))"

section \<open>Authentication controller and error middleware\<close>

text \<open>
  An error on its way to the error middleware (\<^verbatim>\<open>CustomError\<close>): the message, and the
  optional \<^verbatim>\<open>status\<close> and \<^verbatim>\<open>errorCode\<close>. \<^verbatim>\<open>new Error(message)\<close>, which is what the
  services throw, sets neither.
\<close>

datatype error_code =
    INTERNAL_SERVER_ERROR
  | BAD_REQUEST
  | UNAUTHORIZED
  | FORBIDDEN
  | NOT_FOUND
  | VALIDATION_ERROR
  | DATABASE_ERROR
  | RATE_LIMIT_EXCEEDED
  | SERVICE_UNAVAILABLE

record custom_error =
  ce_message :: error
  ce_status :: "nat option"
  ce_errorCode :: "error_code option"

definition newError :: "error \<Rightarrow> custom_error" where
  "newError message = \<lparr> ce_message = message, ce_status = None, ce_errorCode = None \<rparr>"

text \<open>
  \<^verbatim>\<open>errorHandler\<close> of the error middleware: \<^verbatim>\<open>err.status || 500\<close> and
  \<^verbatim>\<open>err.errorCode || ErrorCode.INTERNAL_SERVER_ERROR\<close>.
\<close>

record error_response =
  er_status :: nat
  er_errorCode :: error_code
  er_message :: error

definition errorHandler :: "custom_error \<Rightarrow> error_response" where
  "errorHandler err =
     \<lparr> er_status = (case ce_status err of Some s \<Rightarrow> if s \<noteq> 0 then s else 500 | None \<Rightarrow> 500),
       er_errorCode = (case ce_errorCode err of Some c \<Rightarrow> c | None \<Rightarrow> INTERNAL_SERVER_ERROR),
       er_message = ce_message err \<rparr>"

text \<open>
  \<^verbatim>\<open>authHook\<close> of the authentication controller, for a request body with the optional
  fields \<^verbatim>\<open>walletAddress\<close> and \<^verbatim>\<open>signature\<close>: a missing or empty field is answered with
  status 400; otherwise \<^verbatim>\<open>verifyCredentials\<close> runs, its result is answered with status
  200, and what it throws is passed to the error middleware as it is.
\<close>

datatype auth_response = Verified auth_result | FieldsRequired | Failed error_response

fun responseStatus :: "auth_response \<Rightarrow> nat" where
  "responseStatus (Verified r) = 200"
| "responseStatus FieldsRequired = 400"
| "responseStatus (Failed e) = er_status e"

definition authHook ::
  "auth_env \<Rightarrow> user list \<Rightarrow> string option \<Rightarrow> string option \<Rightarrow> auth_response \<times> user list" where
  "authHook env users walletField signatureField =
     (if truthyString signatureField \<and> truthyString walletField
      then (case verifyCredentials env users (the walletField) (the signatureField) of
              (Inr token, users') \<Rightarrow> (Verified token, users')
            | (Inl e, users') \<Rightarrow> (Failed (errorHandler (newError e)), users'))
      else (FieldsRequired, users))"

section \<open>Vocabulary of the statements\<close>

text \<open>
  Words the theorems use and the code does not have. \<open>wholeId n\<close> is the double for the
  whole number \<open>n\<close>. An identifier is small when it is a whole number from \<open>0\<close> to
  \<open>2\<^sup>5\<^sup>3 - 101\<close>, so that a hundred increments from it are exact; \<open>idNumber\<close> is that whole
  number. The amounts of an input are summed exactly when they
  and the total are finite and every sum the code forms on the way (each partial sum from
  the left, and the last one minus the total) is a double as it stands; \<open>exactSum\<close> is
  their sum as a rational.
\<close>

definition wholeId :: "int \<Rightarrow> double" where
  "wholeId n = Fin (of_int n)"

definition smallIntegerId :: "double \<Rightarrow> bool" where
  "smallIntegerId d =
     (case d of Fin r \<Rightarrow> of_int \<lfloor>r\<rfloor> = r \<and> 0 \<le> r \<and> r \<le> 9007199254740891 | _ \<Rightarrow> False)"

definition idNumber :: "split \<Rightarrow> int" where
  "idNumber s = \<lfloor>exactValue (splitId s)\<rfloor>"



section \<open>Concrete inputs\<close>

text \<open>
  The inputs the theorems are run on: four addresses, two transaction hashes, the
  specification's example split (a dinner of 100 shared by two participants), a split of
  \<open>10\<^sup>1\<^sup>6\<close> whose second share of 1 is lost in the sum, a blockchain collaborator that answers
  with a given result, stored splits with a given identifier, creator and creation date,
  and a stored split whose identifier is \<open>2\<^sup>5\<^sup>3\<close>.
\<close>

definition addrA :: string where
  "addrA = ''0x'' @ replicate 40 (CHR ''a'')"

definition addrB :: string where
  "addrB = ''0x'' @ replicate 40 (CHR ''b'')"

definition addrC :: string where
  "addrC = ''0x'' @ replicate 40 (CHR ''c'')"

definition addrD :: string where
  "addrD = ''0x'' @ replicate 40 (CHR ''d'')"

definition hash1 :: string where
  "hash1 = ''0x'' @ replicate 64 (CHR ''1'')"

definition hash2 :: string where
  "hash2 = ''0x'' @ replicate 64 (CHR ''2'')"

definition dinner :: create_split_input where
  "dinner =
     \<lparr> in_description = ''Dinner'', in_totalAmount = Fin 100,
       in_participants =
         [\<lparr> in_walletAddress = addrB, in_name = None, in_amountDue = Fin 50 \<rparr>,
          \<lparr> in_walletAddress = addrC, in_name = None, in_amountDue = Fin 50 \<rparr>] \<rparr>"


definition chainResult :: "int \<Rightarrow> string \<Rightarrow> blockchain_result" where
  "chainResult sid h =
     \<lparr> bc_splitId = sid, bc_splitAddress = addrD, bc_txHash = h,
       bc_blockNumber = Fin 18000000, bc_isConfirmed = False \<rparr>"

definition chainEnv :: "blockchain_result \<Rightarrow> bool \<Rightarrow> create_env" where
  "chainEnv bc insertOk =
     \<lparr> env_deploy = (\<lambda>creator descr ps total. Inr bc),
       env_now = 1000, env_insertOk = insertOk, env_statsOk = True \<rparr>"

definition storedSplit :: "int \<Rightarrow> string \<Rightarrow> string \<Rightarrow> nat \<Rightarrow> split" where
  "storedSplit sid h creator created =
     (newSplit created creator dinner (chainResult sid h) (Fin 1))
       \<lparr> splitId := Fin (of_int sid) \<rparr>"

definition paidSplit :: split where
  "paidSplit =
     (storedSplit 1 hash1 addrA 100)
       \<lparr> status := Active,
         participants :=
           map (\<lambda>p. p\<lparr> hasPaid := True, paidAt := Some 500 \<rparr>)
               (participants (storedSplit 1 hash1 addrA 100)) \<rparr>"

definition largestIdSplit :: split where
  "largestIdSplit = storedSplit 9007199254740992 hash1 addrA 100"

definition signature1 :: string where
  "signature1 = ''0x'' @ replicate 130 (CHR ''3'')"

definition authEnv :: "string option \<Rightarrow> auth_env" where
  "authEnv signer =
     \<lparr> auth_recover = (\<lambda>message signature. signer),
       auth_generateName = (\<lambda>address. ''Swift Otter''),
       auth_sign = (\<lambda>wallet display uid. ''token''),
       auth_newId = 1, auth_now = 1000, auth_insertOk = True, auth_saveOk = True \<rparr>"

definition twoSplits :: "split list" where
  "twoSplits = [storedSplit 1 hash1 addrA 100, storedSplit 2 hash2 addrA 200]"

definition noOptions :: query_options where
  "noOptions = \<lparr> opt_status = None, opt_limit = None, opt_skip = None \<rparr>"

definition skipOne :: query_options where
  "skipOne = \<lparr> opt_status = None, opt_limit = None, opt_skip = Some 1 \<rparr>"

text \<open>
  A race: the query for the largest identifier saw the split 4 alone; by the time of the
  lookups the splits 5 and 6 were there.
\<close>

definition seenBefore :: "split list" where
  "seenBefore = [storedSplit 4 hash1 addrA 100]"

definition seenAfter :: "split list" where
  "seenAfter = [storedSplit 4 hash1 addrA 100, storedSplit 5 hash2 addrB 200,
                storedSplit 6 hash2 addrC 300]"

section \<open>Facts about double arithmetic\<close>

text \<open>
  An integer from \<open>0\<close> to \<open>2\<^sup>5\<^sup>3\<close> is a double: rounding leaves it as it is.
\<close>

lemma scaleDown_nonneg: "0 \<le> scaleDown x f"
  by (induction f arbitrary: x) auto

lemma scaleDown_lower: "1 \<le> x \<Longrightarrow> pow2 (scaleDown x f) \<le> x"
proof (induction f arbitrary: x)
  case 0
  then show ?case by (simp add: pow2_def)
next
  case (Suc f)
  show ?case
  proof (cases "x < 2")
    case True
    with Suc.prems show ?thesis by (simp add: pow2_def)
  next
    case False
    then have h: "1 \<le> x / 2" by simp
    have nn: "0 \<le> scaleDown (x / 2) f" by (rule scaleDown_nonneg)
    from Suc.IH [OF h] have "pow2 (scaleDown (x / 2) f) \<le> x / 2" .
    moreover have "pow2 (scaleDown (x / 2) f + 1) = 2 * pow2 (scaleDown (x / 2) f)"
      using nn by (simp add: pow2_def nat_add_distrib)
    ultimately show ?thesis using False by simp
  qed
qed

lemma scaleDown_upper: "x < 2 ^ Suc k \<Longrightarrow> scaleDown x f \<le> int k"
proof (induction f arbitrary: x k)
  case 0
  then show ?case by simp
next
  case (Suc f)
  show ?case
  proof (cases "x < 2")
    case True
    then show ?thesis by simp
  next
    case False
    with Suc.prems obtain j where k: "k = Suc j"
      by (cases k) auto
    with Suc.prems have "x / 2 < 2 ^ Suc j" by simp
    from Suc.IH [OF this] show ?thesis using False k by simp
  qed
qed

lemma roundHalfEven_int: "roundHalfEven (of_int m) = m"
  by (simp add: roundHalfEven_def)

lemma roundToDouble_exact:
  assumes "x / quantum x = of_int m" and "quantum x \<noteq> 0"
  shows "roundToDouble x = x"
proof -
  from assms have "x = of_int m * quantum x"
    by (simp add: field_simps)
  then have "of_int m * quantum x = x" by simp
  with assms(1) show ?thesis
    by (simp add: roundToDouble_def roundHalfEven_int)
qed

lemma pow2_pos: "0 < pow2 e"
  by (simp add: pow2_def)

lemma roundToDouble_int:
  assumes "0 \<le> n" and "n \<le> 2 ^ 53"
  shows "roundToDouble (of_int n) = of_int n"
proof (cases "n = 0")
  case True
  then show ?thesis by (simp add: roundToDouble_def)
next
  case False
  define x :: rat where "x = of_int n"
  from False assms have x1: "1 \<le> x" and xu: "x \<le> 2 ^ 53"
    unfolding x_def by (simp_all add: of_int_le_numeral_power_cancel_iff [symmetric] del: of_int_le_numeral_power_cancel_iff)
  define e where "e = scaleDown x 1100"
  have be: "binaryExponent x = e"
    using x1 by (simp add: binaryExponent_def e_def)
  have e0: "0 \<le> e" unfolding e_def by (rule scaleDown_nonneg)
  have "x < 2 ^ Suc 53" using xu by simp
  then have e53: "e \<le> 53" unfolding e_def using scaleDown_upper [of x 53 1100] by simp
  have lo: "pow2 e \<le> x" unfolding e_def using x1 by (rule scaleDown_lower)
  have q: "quantum x = pow2 (e - 52)"
    using e0 by (simp add: quantum_def be max_def)
  have "\<exists>m. x / quantum x = of_int m"
  proof (cases "e \<le> 52")
    case True
    then have "quantum x = 1 / 2 ^ nat (52 - e)"
      using q by (cases "e = 52") (simp_all add: pow2_def)
    then have "x / quantum x = of_int (n * 2 ^ nat (52 - e))"
      by (simp add: x_def)
    then show ?thesis by blast
  next
    case False
    with e53 have e: "e = 53" by simp
    with lo have "2 ^ 53 \<le> x" by (simp add: pow2_def)
    with xu have "x = 2 ^ 53" by simp
    moreover have "quantum x = 2" using q e by (simp add: pow2_def)
    ultimately have "x / quantum x = of_int (2 ^ 52)" by simp
    then show ?thesis by blast
  qed
  then obtain m where "x / quantum x = of_int m" by blast
  moreover have "quantum x \<noteq> 0" using pow2_pos [of "e - 52"] q by simp
  ultimately have "roundToDouble x = x" by (rule roundToDouble_exact)
  then show ?thesis by (simp add: x_def)
qed

lemma dround_int:
  assumes "0 \<le> n" and "n \<le> 2 ^ 53"
  shows "dround (of_int n) = Fin (of_int n)"
proof -
  have r: "roundToDouble (of_int n) = of_int n"
    using assms by (rule roundToDouble_int)
  have "(of_int n :: rat) \<le> 2 ^ 53" using assms(2)
    by (simp add: of_int_le_numeral_power_cancel_iff [symmetric] del: of_int_le_numeral_power_cancel_iff)
  moreover have "(2::rat) ^ 53 < 2 ^ 1024" by simp
  ultimately have u: "(of_int n :: rat) < 2 ^ 1024" by (rule le_less_trans)
  have "(0::rat) \<le> of_int n" using assms(1) by simp
  then have l: "\<not> (of_int n :: rat) \<le> - (2 ^ 1024)" by simp
  show ?thesis using u l by (simp add: dround_def r)
qed

lemma dround_numeral:
  "numeral k \<le> (9007199254740992::int) \<Longrightarrow> dround (numeral k) = Fin (numeral k)"
  using dround_int [of "numeral k"] by simp

lemma dround_0: "dround 0 = Fin 0"
  using dround_int [of 0] by simp


text \<open>
  Evaluation takes the short way for such integers, and knows the literal \<^verbatim>\<open>0.01\<close>.
\<close>

lemma dround_code [code]:
  "dround x =
     (if 0 \<le> x \<and> x \<le> 9007199254740992 \<and> of_int \<lfloor>x\<rfloor> = x then Fin x
      else (let r = roundToDouble x
            in if 2 ^ 1024 \<le> r then PInf else if r \<le> - (2 ^ 1024) then NInf else Fin r))"
proof (cases "0 \<le> x \<and> x \<le> 9007199254740992 \<and> of_int \<lfloor>x\<rfloor> = x")
  case True
  then have "of_int \<lfloor>x\<rfloor> = x" by blast
  then have x: "x = of_int \<lfloor>x\<rfloor>" by (rule sym)
  from True have "0 \<le> \<lfloor>x\<rfloor>" by simp
  moreover from True have "\<lfloor>x\<rfloor> \<le> 2 ^ 53" by (simp add: floor_le_iff)
  ultimately have "dround (of_int \<lfloor>x\<rfloor>) = Fin (of_int \<lfloor>x\<rfloor>)" by (rule dround_int)
  with x have "dround x = Fin x" by simp
  with True show ?thesis by simp
next
  case False
  show ?thesis by (simp only: if_not_P [OF False] dround_def)
qed

lemma scaleUp_numeral:
  "scaleUp x (numeral k) = (if 1 \<le> x then 0 else scaleUp (2 * x) (pred_numeral k) - 1)"
  by (simp add: numeral_eq_Suc)

lemma scaleDown_numeral:
  "scaleDown x (numeral k) = (if x < 2 then 0 else scaleDown (x / 2) (pred_numeral k) + 1)"
  by (simp add: numeral_eq_Suc)

lemma floor_rat_numeral:
  "\<lfloor>(numeral a :: rat) / numeral b\<rfloor> = numeral a div numeral b"
  using floor_divide_of_int_eq [of "numeral a" "numeral b", where ?'a = rat] by simp

lemmas double_eval = dround_def roundToDouble_def quantum_def binaryExponent_def
  scaleDown_numeral scaleUp_numeral pow2_def roundHalfEven_def Let_def floor_rat_numeral

lemma double_cent_value [code]:
  "double_cent = Fin (5764607523034235 / 576460752303423488)"
  by (simp add: double_cent_def double_eval)

lemma dadd_largest_integer: "dadd (Fin 9007199254740992) (Fin 1) = Fin 9007199254740992"
  by (simp add: double_eval)



lemma exactValue_Fin: "exactValue (Fin r) = r"
  by (simp add: exactValue_def)

section \<open>Facts about lowercasing\<close>

lemma toLowerChar_idem: "toLowerChar (toLowerChar c) = toLowerChar c"
  by (simp add: toLowerChar_def Let_def)

lemma toLowerCase_idem: "toLowerCase (toLowerCase s) = toLowerCase s"
  by (simp add: toLowerCase_def toLowerChar_idem)

lemma toLowerChar_not_upper:
  "\<not> (65 \<le> (of_char (toLowerChar c) :: nat) \<and> (of_char (toLowerChar c) :: nat) \<le> 90)"
  by (simp add: toLowerChar_def Let_def)

lemma isHexChar_lower: "isHexChar (toLowerChar c) \<Longrightarrow> isLowerHexChar (toLowerChar c)"
  using toLowerChar_not_upper [of c]
  by (auto simp: isHexChar_def isLowerHexChar_def Let_def)

lemma list_all_hex_lower:
  "list_all isHexChar (toLowerCase s) \<Longrightarrow> list_all isLowerHexChar (toLowerCase s)"
  by (induction s) (auto simp: toLowerCase_def isHexChar_lower)

lemma toLowerCase_Cons: "toLowerCase (c # s) = toLowerChar c # toLowerCase s"
  by (simp add: toLowerCase_def)

lemma toLowerCase_length [simp]: "length (toLowerCase s) = length s"
  by (simp add: toLowerCase_def)

lemma isWalletAddress_lower_spec:
  "isWalletAddress (toLowerCase a) \<Longrightarrow> spec_normalized_address (toLowerCase a)"
proof -
  assume v: "isWalletAddress (toLowerCase a)"
  then obtain c0 c1 ds where a: "a = c0 # c1 # ds"
    by (cases a; cases "tl a")
       (auto simp: isWalletAddress_def matchesHex_def toLowerCase_def)
  from v a have h: "toLowerChar c0 = CHR ''0''" "toLowerChar c1 = CHR ''x''"
    "length ds = 40" "list_all isHexChar (toLowerCase ds)"
    by (simp_all add: isWalletAddress_def matchesHex_def toLowerCase_Cons)
  from h(4) have "list_all isLowerHexChar (toLowerCase ds)"
    by (rule list_all_hex_lower)
  with h a show ?thesis
    by (simp add: spec_normalized_address_def toLowerCase_Cons)
qed

text \<open>A lower-case hexadecimal digit is unchanged by lowercasing.\<close>

lemma isWalletAddress_imp_lower:
  "isWalletAddress a \<Longrightarrow> isWalletAddress (toLowerCase a)"
proof -
  have hex: "isHexChar c \<Longrightarrow> isHexChar (toLowerChar c)" for c
    by (auto simp: isHexChar_def toLowerChar_def Let_def)
  have all: "list_all isHexChar ds \<Longrightarrow> list_all isHexChar (toLowerCase ds)" for ds
    by (induction ds) (auto simp: toLowerCase_def hex)
  have z: "toLowerChar CHR ''0'' = CHR ''0''" "toLowerChar CHR ''x'' = CHR ''x''"
    by (simp_all add: toLowerChar_def)
  assume "isWalletAddress a"
  then show ?thesis
    by (auto simp: isWalletAddress_def matchesHex_def toLowerCase_Cons z all
             split: list.splits)
qed

section \<open>Address normalisation\<close>

text \<open>
  C8. Every address that passes the format test of the services (the test is applied to
  the lowercased string, as \<^verbatim>\<open>verifyCredentials\<close> and \<^verbatim>\<open>createSplit\<close> do) has a
  normal form that lowercasing leaves unchanged, and that normal form matches
  \<^verbatim>\<open>/^0x[0-9a-f]{40}$/\<close>.
\<close>

theorem normalize_idempotent_lower_hex:
  "isWalletAddress (toLowerCase a) \<Longrightarrow>
     toLowerCase (toLowerCase a) = toLowerCase a \<and> spec_normalized_address (toLowerCase a)"
  by (simp add: toLowerCase_idem isWalletAddress_lower_spec)

theorem normalize_idempotent_lower_hex_witness:
  "isWalletAddress (toLowerCase ''0xAbCdEf0123456789aBcDeF0123456789ABCDEF01'')
   \<and> toLowerCase (toLowerCase ''0xAbCdEf0123456789aBcDeF0123456789ABCDEF01'')
       = toLowerCase ''0xAbCdEf0123456789aBcDeF0123456789ABCDEF01''
   \<and> spec_normalized_address (toLowerCase ''0xAbCdEf0123456789aBcDeF0123456789ABCDEF01'')"
proof -
  have h: "isWalletAddress (toLowerCase ''0xAbCdEf0123456789aBcDeF0123456789ABCDEF01'')"
    by code_simp
  show ?thesis
    using h normalize_idempotent_lower_hex [OF h] by simp
qed

section \<open>Allocation of split identifiers\<close>

lemma dadd_one_exact:
  assumes "0 \<le> n" and "n < 2 ^ 53"
  shows "dadd (wholeId n) (Fin 1) = wholeId (n + 1)"
proof -
  have "dround (of_int (n + 1)) = Fin (of_int (n + 1))"
    using assms by (intro dround_int) simp_all
  then show ?thesis by (simp add: wholeId_def)
qed

text \<open>
  The probe along a sequence of identifiers, each the increment of the one before: it
  runs to the end of the attempts when all are taken, and stops at the first that is not.
\<close>

lemma probe_all_taken:
  assumes "attempts \<le> 100"
    and "\<And>j. attempts \<le> j \<Longrightarrow> j < 100 \<Longrightarrow> taken (f j) \<and> dadd (f j) (Fin 1) = f (Suc j)"
  shows "probeSplitId taken (f attempts) attempts = (f 100, 100)"
  using assms
proof (induction "100 - attempts" arbitrary: attempts)
  case 0
  then have "attempts = 100" by simp
  then show ?case by (subst probeSplitId.simps) simp
next
  case (Suc d)
  from Suc.hyps(2) have lt: "attempts < 100" and d: "d = 100 - Suc attempts" by simp_all
  from Suc.prems(2) [of attempts] lt
  have t: "taken (f attempts)" and i: "dadd (f attempts) (Fin 1) = f (Suc attempts)" by simp_all
  have "probeSplitId taken (f (Suc attempts)) (Suc attempts) = (f 100, 100)"
  proof (rule Suc.hyps(1) [OF d])
    show "Suc attempts \<le> 100" using lt by simp
    show "taken (f j) \<and> dadd (f j) (Fin 1) = f (Suc j)" if "Suc attempts \<le> j" "j < 100" for j
      using Suc.prems(2) [of j] that by simp
  qed
  then show ?case
    using t i lt by (subst probeSplitId.simps) simp
qed

lemma probe_first_free:
  assumes "attempts \<le> k" and "k < 100" and "\<not> taken (f k)"
    and "\<And>j. attempts \<le> j \<Longrightarrow> j < k \<Longrightarrow> taken (f j) \<and> dadd (f j) (Fin 1) = f (Suc j)"
  shows "probeSplitId taken (f attempts) attempts = (f k, k)"
  using assms
proof (induction "k - attempts" arbitrary: attempts)
  case 0
  then have "attempts = k" by simp
  with "0.prems"(3) show ?case by (subst probeSplitId.simps) simp
next
  case (Suc d)
  from Suc.hyps(2) have lt: "attempts < k" and d: "d = k - Suc attempts" by simp_all
  from Suc.prems(4) [of attempts] lt
  have t: "taken (f attempts)" and i: "dadd (f attempts) (Fin 1) = f (Suc attempts)" by simp_all
  have "probeSplitId taken (f (Suc attempts)) (Suc attempts) = (f k, k)"
  proof (rule Suc.hyps(1) [OF d])
    show "Suc attempts \<le> k" using lt by simp
    show "k < 100" by (rule Suc.prems(2))
    show "\<not> taken (f k)" by (rule Suc.prems(3))
    show "taken (f j) \<and> dadd (f j) (Fin 1) = f (Suc j)" if "Suc attempts \<le> j" "j < k" for j
      using Suc.prems(4) [of j] that by simp
  qed
  then show ?case
    using t i lt Suc.prems(2) by (subst probeSplitId.simps) simp
qed

text \<open>The largest identifier of a collection of small identifiers.\<close>

lemma smallIntegerId_Fin:
  assumes "smallIntegerId (splitId s)"
  shows "splitId s = wholeId (idNumber s)" and "0 \<le> idNumber s"
    and "idNumber s \<le> 9007199254740891"
proof -
  obtain r where r: "splitId s = Fin r" and q: "of_int \<lfloor>r\<rfloor> = r \<and> 0 \<le> r \<and> r \<le> 9007199254740891"
  proof (cases "splitId s")
    case (Fin r)
    with assms have "of_int \<lfloor>r\<rfloor> = r \<and> 0 \<le> r \<and> r \<le> 9007199254740891"
      unfolding smallIntegerId_def by (simp only: double.case)
    with Fin that show ?thesis by blast
  next
    case PInf
    with assms show ?thesis by (simp add: smallIntegerId_def)
  next
    case NInf
    with assms show ?thesis by (simp add: smallIntegerId_def)
  next
    case NaN
    with assms show ?thesis by (simp add: smallIntegerId_def)
  qed
  from r have i: "idNumber s = \<lfloor>r\<rfloor>" by (simp add: idNumber_def exactValue_def)
  from q have "r = of_int \<lfloor>r\<rfloor>" by (simp only: simp_thms)
  with r i show "splitId s = wholeId (idNumber s)" by (simp only: wholeId_def)
  from q have "0 \<le> r" by blast
  then show "0 \<le> idNumber s" using i by simp
  from q have "r \<le> 9007199254740891" by blast
  then show "idNumber s \<le> 9007199254740891" using i by (simp add: floor_le_iff)
qed

lemma wholeId_eq [simp]: "wholeId a = wholeId b \<longleftrightarrow> a = b"
  by (simp add: wholeId_def)

lemma sortsBefore_whole: "sortsBefore (wholeId a) (wholeId b) \<longleftrightarrow> a < b"
  by (simp add: sortsBefore_def wholeId_def)

lemma findMaxSplit_fold_small:
  assumes "smallIntegerId (splitId m)" and "list_all (\<lambda>s. smallIntegerId (splitId s)) ss"
  shows "smallIntegerId
           (splitId (fold (\<lambda>t m. if sortsBefore (splitId m) (splitId t) then t else m) ss m))
         \<and> idNumber (fold (\<lambda>t m. if sortsBefore (splitId m) (splitId t) then t else m) ss m)
             = fold max (map idNumber ss) (idNumber m)"
  using assms
proof (induction ss arbitrary: m)
  case Nil
  then show ?case by simp
next
  case (Cons t ss)
  from Cons.prems have t: "smallIntegerId (splitId t)"
    and ss: "list_all (\<lambda>s. smallIntegerId (splitId s)) ss" by simp_all
  define m' where "m' = (if sortsBefore (splitId m) (splitId t) then t else m)"
  have m': "smallIntegerId (splitId m')" using Cons.prems(1) t by (simp add: m'_def)
  have "sortsBefore (splitId m) (splitId t) \<longleftrightarrow> idNumber m < idNumber t"
    using smallIntegerId_Fin(1) [OF Cons.prems(1)] smallIntegerId_Fin(1) [OF t]
    by (simp add: sortsBefore_whole)
  then have im: "idNumber m' = max (idNumber t) (idNumber m)"
    by (auto simp: m'_def max_def)
  from Cons.IH [OF m' ss] im show ?case
    by (simp add: m'_def)
qed

lemma findMaxSplit_small:
  assumes "list_all (\<lambda>s. smallIntegerId (splitId s)) seen" and "seen \<noteq> []"
  shows "\<exists>m. findMaxSplit seen = Some m \<and> smallIntegerId (splitId m)
              \<and> idNumber m = Max (set (map idNumber seen))"
proof -
  from assms(2) obtain s ss where seen: "seen = s # ss" by (cases seen) auto
  with assms(1) have s: "smallIntegerId (splitId s)"
    and ss: "list_all (\<lambda>s. smallIntegerId (splitId s)) ss" by simp_all
  have "Max (set (map idNumber seen)) = fold max (map idNumber ss) (idNumber s)"
    using Max.set_eq_fold [of "idNumber s" "map idNumber ss"] by (simp add: seen)
  with findMaxSplit_fold_small [OF s ss] show ?thesis
    by (simp add: findMaxSplit_def seen)
qed

lemma findBySplitId_taken:
  "findBySplitId store sid \<noteq> None \<longleftrightarrow> sid \<in> set (map splitId store)"
  by (auto simp: findBySplitId_def find_None_iff)

text \<open>
  The allocation on a collection of small identifiers: the probe starts at the largest
  identifier plus one (at \<open>1\<close> on the empty collection), a whole number from which a hundred
  increments are exact.
\<close>

lemma allocateSplitId_candidate:
  assumes "list_all (\<lambda>s. smallIntegerId (splitId s)) seen"
    and "c = (if seen = [] then 1 else Max (set (map idNumber seen)) + 1)"
  shows "allocateSplitId seen store =
           (case probeSplitId (\<lambda>sid. findBySplitId store sid \<noteq> None) (wholeId c) 0 of
              (sid, attempts) \<Rightarrow>
                if attempts \<ge> 100 then Inl UnableToGenerateSplitId else Inr sid)"
    and "1 \<le> c" and "c \<le> 9007199254740892"
    and "j < 100 \<Longrightarrow> dadd (wholeId (c + int j)) (Fin 1) = wholeId (c + int (Suc j))"
proof -
  have cand: "(case map_option splitId (findMaxSplit seen) of
                 Some m \<Rightarrow> dadd m (Fin 1) | None \<Rightarrow> Fin 1) = wholeId c
              \<and> 1 \<le> c \<and> c \<le> 9007199254740892"
  proof (cases "seen = []")
    case True
    then show ?thesis by (simp add: assms(2) findMaxSplit_def wholeId_def)
  next
    case False
    from findMaxSplit_small [OF assms(1) False]
    obtain m where m: "findMaxSplit seen = Some m" "smallIntegerId (splitId m)"
        "idNumber m = Max (set (map idNumber seen))" by blast
    note s = smallIntegerId_Fin [OF m(2)]
    have "dadd (wholeId (idNumber m)) (Fin 1) = wholeId (idNumber m + 1)"
      using s(2,3) by (intro dadd_one_exact) simp_all
    with m s False show ?thesis by (simp add: assms(2))
  qed
  from cand show "1 \<le> c" and "c \<le> 9007199254740892" by simp_all
  show "allocateSplitId seen store =
           (case probeSplitId (\<lambda>sid. findBySplitId store sid \<noteq> None) (wholeId c) 0 of
              (sid, attempts) \<Rightarrow>
                if attempts \<ge> 100 then Inl UnableToGenerateSplitId else Inr sid)"
    using cand by (simp add: allocateSplitId_def generateSplitId_def Let_def)
  show "dadd (wholeId (c + int j)) (Fin 1) = wholeId (c + int (Suc j))" if "j < 100"
  proof -
    have "dadd (wholeId (c + int j)) (Fin 1) = wholeId (c + int j + 1)"
      using cand that by (intro dadd_one_exact) simp_all
    moreover have "c + int j + 1 = c + int (Suc j)" by simp
    ultimately show ?thesis by (simp only:)
  qed
qed

text \<open>
  C3, as the code has it. Let the largest identifier be read from a collection of small
  identifiers. The candidate is that identifier plus one, or \<open>1\<close> when the collection is
  empty. If the candidate and the 99 identifiers after it are all in the collection the
  lookups see, the bound of 100 attempts is exhausted and the allocation fails; otherwise
  it returns the first identifier from the candidate upward that is not there, having
  stepped by one.
\<close>

theorem allocateSplitId_probe:
  assumes "list_all (\<lambda>s. smallIntegerId (splitId s)) seen"
  shows "(let candidate = (if seen = [] then 1 else Max (set (map idNumber seen)) + 1)
          in if \<forall>k<100. wholeId (candidate + int k) \<in> set (map splitId store)
             then allocateSplitId seen store = Inl UnableToGenerateSplitId
             else (\<exists>k<100. wholeId (candidate + int k) \<notin> set (map splitId store)
                     \<and> (\<forall>j<k. wholeId (candidate + int j) \<in> set (map splitId store))
                     \<and> allocateSplitId seen store = Inr (wholeId (candidate + int k))))"
proof -
  define c where "c = (if seen = [] then 1 else Max (set (map idNumber seen)) + 1)"
  define taken where "taken = (\<lambda>sid. findBySplitId store sid \<noteq> None)"
  define f where "f = (\<lambda>j. wholeId (c + int j))"
  have tk: "taken sid \<longleftrightarrow> sid \<in> set (map splitId store)" for sid
    unfolding taken_def by (rule findBySplitId_taken)
  have c: "c = (if seen = [] then 1 else Max (set (map idNumber seen)) + 1)"
    by (simp add: c_def)
  have inc: "dadd (f j) (Fin 1) = f (Suc j)" if "j < 100" for j
    unfolding f_def using assms c that by (rule allocateSplitId_candidate(4))
  have f0: "f 0 = wholeId c" by (simp add: f_def)
  have gen: "allocateSplitId seen store =
      (case probeSplitId taken (f 0) 0 of (sid, attempts) \<Rightarrow>
         if attempts \<ge> 100 then Inl UnableToGenerateSplitId else Inr sid)"
    unfolding f0 taken_def using assms c by (rule allocateSplitId_candidate(1))
  have goal: "if \<forall>k<100. taken (f k)
              then allocateSplitId seen store = Inl UnableToGenerateSplitId
              else (\<exists>k<100. \<not> taken (f k) \<and> (\<forall>j<k. taken (f j))
                      \<and> allocateSplitId seen store = Inr (f k))"
  proof (cases "\<forall>k<100. taken (f k)")
    case True
    then have "probeSplitId taken (f 0) 0 = (f 100, 100)"
      using inc by (intro probe_all_taken) simp_all
    with True show ?thesis by (simp add: gen)
  next
    case False
    then have ex: "\<exists>k. k < 100 \<and> \<not> taken (f k)" by blast
    define k where "k = (LEAST k. k < 100 \<and> \<not> taken (f k))"
    have k: "k < 100 \<and> \<not> taken (f k)"
      unfolding k_def using ex by (rule LeastI_ex)
    have below: "taken (f j)" if "j < k" for j
    proof -
      from that have "\<not> (j < 100 \<and> \<not> taken (f j))"
        unfolding k_def by (rule not_less_Least)
      with that k show ?thesis by simp
    qed
    have "probeSplitId taken (f 0) 0 = (f k, k)"
    proof (rule probe_first_free)
      show "0 \<le> k" by simp
      show "k < 100" using k by simp
      show "\<not> taken (f k)" using k by simp
      show "taken (f j) \<and> dadd (f j) (Fin 1) = f (Suc j)" if "0 \<le> j" "j < k" for j
        using below [OF that(2)] inc [of j] that(2) k by simp
    qed
    with k have "allocateSplitId seen store = Inr (f k)"
      by (simp add: gen)
    with k below False show ?thesis by auto
  qed
  then show ?thesis
    unfolding Let_def c_def [symmetric] tk f_def .
qed

theorem allocateSplitId_probe_witness:
  "list_all (\<lambda>s. smallIntegerId (splitId s)) seenBefore
   \<and> allocateSplitId seenBefore seenAfter = Inr (Fin 7)"
proof -
  define T where "T = (\<lambda>k. wholeId (5 + int k) \<in> set (map splitId seenAfter))"
  have ids: "map splitId seenAfter = [wholeId 4, wholeId 5, wholeId 6]"
    by (simp add: seenAfter_def storedSplit_def wholeId_def)
  have h: "list_all (\<lambda>s. smallIntegerId (splitId s)) seenBefore"
    by (simp add: seenBefore_def storedSplit_def smallIntegerId_def)
  have c: "(if seenBefore = [] then 1 else Max (set (map idNumber seenBefore)) + 1) = 5"
    by (simp add: seenBefore_def storedSplit_def idNumber_def exactValue_def)
  have T0: "T 0" and T1: "T 1" and T2: "\<not> T 2"
    by (simp_all add: T_def ids)
  have ne: "\<not> (\<forall>k<100. T k)"
  proof
    assume "\<forall>k<100. T k"
    then have "(2::nat) < 100 \<longrightarrow> T 2" by (rule spec)
    with T2 show False by simp
  qed
  have "if \<forall>k<100. T k
        then allocateSplitId seenBefore seenAfter = Inl UnableToGenerateSplitId
        else (\<exists>k<100. \<not> T k \<and> (\<forall>j<k. T j)
                \<and> allocateSplitId seenBefore seenAfter = Inr (wholeId (5 + int k)))"
    using allocateSplitId_probe [OF h, of seenAfter]
    unfolding c Let_def T_def .
  with ne obtain k where k: "\<not> T k" "\<forall>j<k. T j"
      "allocateSplitId seenBefore seenAfter = Inr (wholeId (5 + int k))"
    by (simp only: if_False) blast
  have "\<not> 2 < k"
  proof
    assume "2 < k"
    with k(2) have "T 2" by blast
    with T2 show False by simp
  qed
  moreover have "k \<noteq> 0"
  proof
    assume "k = 0"
    with k(1) T0 show False by simp
  qed
  moreover have "k \<noteq> 1"
  proof
    assume "k = 1"
    with k(1) T1 show False by simp
  qed
  ultimately have "k = 2" by simp
  with k(3) h show ?thesis by (simp add: wholeId_def)
qed

text \<open>
  C3, as the claim states it, fails at the identifier \<open>2\<^sup>5\<^sup>3\<close>. The largest identifier plus
  one, \<open>2\<^sup>5\<^sup>3 + 1\<close>, is not in the collection; but in double arithmetic the addition gives
  \<open>2\<^sup>5\<^sup>3\<close> again, which is taken, the increments do not advance, and after 100 attempts the
  allocation fails.
\<close>

theorem allocateSplitId_largest_counterexample:
  "map splitId [largestIdSplit] = [wholeId 9007199254740992]
   \<and> findBySplitId [largestIdSplit] (wholeId (9007199254740992 + 1)) = None
   \<and> allocateSplitId [largestIdSplit] [largestIdSplit] = Inl UnableToGenerateSplitId"
proof -
  define top where "top = Fin 9007199254740992"
  have i: "splitId largestIdSplit = top"
    by (simp add: largestIdSplit_def storedSplit_def top_def)
  have w: "wholeId 9007199254740992 = top" "wholeId (9007199254740992 + 1) \<noteq> top"
    by (simp_all add: wholeId_def top_def)
  have inc: "dadd top (Fin 1) = top"
    unfolding top_def by (rule dadd_largest_integer)
  have f: "findBySplitId [largestIdSplit] (wholeId (9007199254740992 + 1)) = None"
    using w(2) by (simp add: findBySplitId_def i)
  have t: "findBySplitId [largestIdSplit] top \<noteq> None"
    by (simp add: findBySplitId_def i)
  have "probeSplitId (\<lambda>sid. findBySplitId [largestIdSplit] sid \<noteq> None) top 0 = (top, 100)"
    using probe_all_taken [of 0 "\<lambda>sid. findBySplitId [largestIdSplit] sid \<noteq> None" "\<lambda>j. top"]
      t inc by simp
  then have a: "allocateSplitId [largestIdSplit] [largestIdSplit] = Inl UnableToGenerateSplitId"
    by (simp add: allocateSplitId_def generateSplitId_def findMaxSplit_def i inc)
  show ?thesis using i f a w(1) by simp
qed

text \<open>
  Within one request that runs alone on small identifiers, the candidate is never taken:
  the allocation returns the largest stored identifier plus one.
\<close>

lemma allocateSplitId_alone:
  assumes "list_all (\<lambda>s. smallIntegerId (splitId s)) store"
  shows "allocateSplitId store store =
           Inr (wholeId (if store = [] then 1 else Max (set (map idNumber store)) + 1))"
proof -
  define c where "c = (if store = [] then 1 else Max (set (map idNumber store)) + 1)"
  have c: "c = (if store = [] then 1 else Max (set (map idNumber store)) + 1)"
    by (simp add: c_def)
  have free: "findBySplitId store (wholeId c) = None"
  proof (rule ccontr)
    assume "findBySplitId store (wholeId c) \<noteq> None"
    then have "wholeId c \<in> set (map splitId store)"
      by (simp only: findBySplitId_taken)
    then obtain s where s: "s \<in> set store" "splitId s = wholeId c"
      by auto
    then have ne: "store \<noteq> []" by auto
    from s(1) assms have "smallIntegerId (splitId s)" by (simp add: list_all_iff)
    from smallIntegerId_Fin(1) [OF this] s(2) have "idNumber s = c" by simp
    moreover have "idNumber s \<le> Max (set (map idNumber store))"
      using s(1) by (intro Max_ge) auto
    ultimately show False using ne by (simp add: c_def)
  qed
  have "probeSplitId (\<lambda>sid. findBySplitId store sid \<noteq> None) (wholeId c) 0 = (wholeId c, 0)"
    using free by (simp add: probeSplitId.simps)
  with allocateSplitId_candidate(1) [OF assms c, of store]
  have "allocateSplitId store store = Inr (wholeId c)" by simp
  then show ?thesis by (simp only: c_def)
qed

section \<open>Completion of a split\<close>

lemma checkAndUpdateCompletion_completed:
  "isCompleted s \<Longrightarrow> checkAndUpdateCompletion saveOk now s = Inr s"
  by (simp add: checkAndUpdateCompletion_def)

lemma updateStatus_consistent:
  "updateStatus saveOk now st s = Inr s' \<Longrightarrow>
     status s' = st \<and> isCompleted s' = (st = Completed) \<and> isCancelled s' = (st = Cancelled)"
  by (auto simp: updateStatus_def saveDocument_def split: if_splits)

text \<open>
  C6. On a split with at least one participant, all of them paid, whose completion flag
  agrees with its status (as \<^verbatim>\<open>updateStatus\<close> and \<^verbatim>\<open>createSplit\<close> write them), the
  completion check, when its save succeeds, leaves the status \<open>completed\<close> and the flag
  set; and the check run again on the result, or on any split whose flag is set, returns
  it unchanged without saving.
\<close>

theorem checkAndUpdateCompletion_completes:
  assumes "participants s \<noteq> []"
    and "list_all hasPaid (participants s)"
    and "isCompleted s \<longrightarrow> status s = Completed"
  shows "\<exists>s'. checkAndUpdateCompletion True now s = Inr s'
            \<and> status s' = Completed \<and> isCompleted s'
            \<and> participants s' = participants s
            \<and> (\<forall>saveOk later. checkAndUpdateCompletion saveOk later s' = Inr s')"
proof (cases "isCompleted s")
  case True
  with assms(3) show ?thesis
    by (simp add: checkAndUpdateCompletion_completed)
next
  case False
  define s' where "s' = s\<lparr> status := Completed, isCompleted := True, isCancelled := False,
      completedAt := (if completedAt s = None then Some now else completedAt s),
      cancelledAt := cancelledAt s \<rparr>"
  have run: "checkAndUpdateCompletion True now s = Inr s'"
    using assms(1,2) False
    by (simp add: checkAndUpdateCompletion_def updateStatus_def saveDocument_def s'_def)
  have "isCompleted s'" "status s' = Completed" "participants s' = participants s"
    by (simp_all add: s'_def)
  with run show ?thesis
    by (simp add: checkAndUpdateCompletion_completed)
qed

theorem checkAndUpdateCompletion_completes_witness:
  "participants paidSplit \<noteq> [] \<and> list_all hasPaid (participants paidSplit)
   \<and> \<not> isCompleted paidSplit \<and> status paidSplit = Active
   \<and> (\<exists>s'. checkAndUpdateCompletion True 2000 paidSplit = Inr s'
          \<and> status s' = Completed \<and> isCompleted s'
          \<and> participants s' = participants paidSplit
          \<and> (\<forall>saveOk later. checkAndUpdateCompletion saveOk later s' = Inr s'))"
proof -
  have h1: "participants paidSplit \<noteq> []"
    by (simp add: paidSplit_def storedSplit_def newSplit_def dinner_def)
  have h2: "list_all hasPaid (participants paidSplit)"
    by (simp add: paidSplit_def storedSplit_def newSplit_def dinner_def)
  have h3: "\<not> isCompleted paidSplit" "status paidSplit = Active"
    by (simp_all add: paidSplit_def storedSplit_def newSplit_def)
  from h3 have h4: "isCompleted paidSplit \<longrightarrow> status paidSplit = Completed" by simp
  show ?thesis
    using h1 h2 h3 checkAndUpdateCompletion_completes [OF h1 h2 h4, of 2000] by simp
qed

section \<open>Authentication\<close>

text \<open>
  When the signature does not verify against the given wallet address,
  \<^verbatim>\<open>verifyCredentials\<close> throws and the collection of users is as it was, so no user is
  created; on well-formed inputs the error is the one whose message is
  \<^verbatim>\<open>Invalid signature: Signature does not match the wallet address\<close> (on malformed ones it
  is the error of the format check that fails first).
\<close>

lemma verifyCredentials_mismatch_keeps_users:
  assumes "\<not> verifySignature (auth_recover env) MESSAGE_TO_SIGN signature (toLowerCase wallet)"
  shows "snd (verifyCredentials env users wallet signature) = users
         \<and> isl (fst (verifyCredentials env users wallet signature))
         \<and> (wallet \<noteq> [] \<and> signature \<noteq> [] \<and> isWalletAddress (toLowerCase wallet)
              \<and> isSignatureFormat signature \<longrightarrow>
            fst (verifyCredentials env users wallet signature) = Inl SignatureMismatch)"
  using assms by (simp add: verifyCredentials_def Let_def)

text \<open>
  Whatever \<^verbatim>\<open>verifyCredentials\<close> throws reaches the client as status 500 with the code
  \<open>INTERNAL_SERVER_ERROR\<close>: the services' errors carry neither a status nor a code.
\<close>

lemma authHook_failure_status:
  "fst (authHook env users walletField signatureField) = Failed r \<Longrightarrow>
     er_status r = 500 \<and> er_errorCode r = INTERNAL_SERVER_ERROR"
  by (auto simp: authHook_def errorHandler_def newError_def split: if_splits prod.splits sum.splits)

text \<open>
  C7. A well-formed address and a well-formed signature that was made by another wallet.
  \<^verbatim>\<open>verifyCredentials\<close> throws \<^verbatim>\<open>Invalid signature: Signature does not match the wallet
  address\<close> and no user is created; but the error is a plain one, and the request is answered
  with status 500 and the code \<open>INTERNAL_SERVER_ERROR\<close>, not with an unauthorized error.
\<close>

theorem authHook_mismatch_internal_error:
  "isWalletAddress (toLowerCase addrA) \<and> isSignatureFormat signature1
   \<and> \<not> verifySignature (auth_recover (authEnv (Some addrB))) MESSAGE_TO_SIGN signature1
         (toLowerCase addrA)
   \<and> verifyCredentials (authEnv (Some addrB)) [] addrA signature1 = (Inl SignatureMismatch, [])
   \<and> authHook (authEnv (Some addrB)) [] (Some addrA) (Some signature1) =
       (Failed \<lparr> er_status = 500, er_errorCode = INTERNAL_SERVER_ERROR,
                 er_message = SignatureMismatch \<rparr>, [])
   \<and> er_errorCode (errorHandler (newError SignatureMismatch)) \<noteq> UNAUTHORIZED"
proof -
  have f: "isWalletAddress (toLowerCase addrA)" "isSignatureFormat signature1"
    by code_simp+
  have h: "\<not> verifySignature (auth_recover (authEnv (Some addrB))) MESSAGE_TO_SIGN signature1
        (toLowerCase addrA)"
    by code_simp
  have v: "verifyCredentials (authEnv (Some addrB)) [] addrA signature1
             = (Inl SignatureMismatch, [])"
    by code_simp
  have a: "authHook (authEnv (Some addrB)) [] (Some addrA) (Some signature1) =
       (Failed \<lparr> er_status = 500, er_errorCode = INTERNAL_SERVER_ERROR,
                 er_message = SignatureMismatch \<rparr>, [])"
    by code_simp
  have e: "er_errorCode (errorHandler (newError SignatureMismatch)) \<noteq> UNAUTHORIZED"
    by (simp add: errorHandler_def newError_def)
  show ?thesis using f h v a e by simp
qed

text \<open>
  The other side: a signature that verifies for an address not yet known creates its user.
\<close>

lemma verifyCredentials_creates_user:
  "verifyCredentials (authEnv (Some addrA)) [] addrA signature1 =
     (Inr \<lparr> out_walletAddress = addrA, out_displayName = ''Swift Otter'', out_token = ''token'' \<rparr>,
      [\<lparr> userId = 1, userWallet = addrA, displayName = ''Swift Otter'',
         totalSplitsCreated = Fin 0, totalSplitsJoined = Fin 0, lastActiveAt = 1000 \<rparr>])"
  by code_simp

section \<open>Creation of a split\<close>

text \<open>
  A call that fails before the deployment returned leaves both collections as they were.
\<close>

lemma createSplit_validation_error:
  "validateCreateSplit creator splitData = Inl e \<Longrightarrow>
     createSplit env store users creator splitData = (Inl e, store, users)"
  by (simp add: createSplit_def)

lemma createSplit_deploy_error:
  "validateCreateSplit creator splitData = Inr nc \<Longrightarrow>
   allocateSplitId store store = Inr sid \<Longrightarrow>
   env_deploy env nc (in_description splitData) (in_participants splitData)
       (in_totalAmount splitData) = Inl e \<Longrightarrow>
     createSplit env store users creator splitData = (Inl e, store, users)"
  by (simp add: createSplit_def)

subsection \<open>The amount check\<close>

text \<open>
  The literal \<^verbatim>\<open>0.01\<close> is the double a little above one hundredth.
\<close>

lemma double_cent_above:
  "exactValue double_cent = 5764607523034235 / 576460752303423488
   \<and> 1 / 100 < exactValue double_cent
   \<and> exactValue double_cent - 1 / 100 < 1 / 10 ^ 18"
  by (simp add: double_cent_value exactValue_Fin)









subsection \<open>After the deployment\<close>

text \<open>
  The conversion of the blockchain's identifier to a number is exact up to \<open>2\<^sup>5\<^sup>3\<close>.
\<close>

lemma numberOfBigInt_exact:
  "0 \<le> n \<Longrightarrow> n \<le> 2 ^ 53 \<Longrightarrow> numberOfBigInt n = wholeId n"
  by (simp add: numberOfBigInt_def wholeId_def dround_int)

text \<open>Above that it rounds: the identifier \<open>2\<^sup>5\<^sup>3 + 1\<close> becomes \<open>2\<^sup>5\<^sup>3\<close>.\<close>

lemma numberOfBigInt_rounds: "numberOfBigInt 9007199254740993 = Fin 9007199254740992"
  by (simp add: numberOfBigInt_def double_eval)

text \<open>
  C2, as the code has it. When the deployment returned, the transaction hash is not yet
  stored, and the creation of the document throws, \<^verbatim>\<open>createSplit\<close> returns instead of
  throwing: the contract address and the transaction hash are the blockchain's, and the
  identifier is the blockchain's, converted to a number, when that is not \<open>0\<close>, else the
  identifier allocated from the store. Nothing is stored.
\<close>

theorem createSplit_persistence_failure_returns:
  assumes "validateCreateSplit creator splitData = Inr nc"
    and "allocateSplitId store store = Inr sid"
    and "env_deploy env nc (in_description splitData) (in_participants splitData)
           (in_totalAmount splitData) = Inr bc"
    and "findByTxHash store (bc_txHash bc) = None"
    and "Split_create (env_insertOk env) (env_now env) store
           (newSplit (env_now env) nc splitData bc sid) = Inl e"
  shows "createSplit env store users creator splitData =
           (Inr \<lparr> res_splitId =
                    (if bc_splitId bc \<noteq> 0 then numberOfBigInt (bc_splitId bc) else sid),
                  res_contractAddress = bc_splitAddress bc,
                  res_txHash = bc_txHash bc \<rparr>, store, users)
         \<and> (0 < bc_splitId bc \<and> bc_splitId bc \<le> 2 ^ 53 \<longrightarrow>
              map_sum id res_splitId (fst (createSplit env store users creator splitData))
                = Inr (wholeId (bc_splitId bc)))"
  using assms by (simp add: createSplit_def persistSplit_def numberOfBigInt_exact)

theorem createSplit_persistence_failure_returns_witness:
  "validateCreateSplit addrA dinner = Inr addrA
   \<and> allocateSplitId ([] :: split list) [] = Inr (Fin 1)
   \<and> env_deploy (chainEnv (chainResult 7 hash1) False) addrA (in_description dinner)
        (in_participants dinner) (in_totalAmount dinner) = Inr (chainResult 7 hash1)
   \<and> findByTxHash [] (bc_txHash (chainResult 7 hash1)) = None
   \<and> Split_create (env_insertOk (chainEnv (chainResult 7 hash1) False))
        (env_now (chainEnv (chainResult 7 hash1) False)) []
        (newSplit (env_now (chainEnv (chainResult 7 hash1) False)) addrA dinner
           (chainResult 7 hash1) (Fin 1)) = Inl WriteFailed
   \<and> createSplit (chainEnv (chainResult 7 hash1) False) [] [] addrA dinner =
        (Inr \<lparr> res_splitId = Fin 7, res_contractAddress = addrD, res_txHash = hash1 \<rparr>, [], [])"
proof -
  have v: "validateCreateSplit addrA dinner = Inr addrA"
    by code_simp
  have a: "allocateSplitId ([] :: split list) [] = Inr (Fin 1)"
    by (simp add: allocateSplitId_def generateSplitId_def findMaxSplit_def findBySplitId_def
                  probeSplitId.simps)
  have d: "env_deploy (chainEnv (chainResult 7 hash1) False) addrA (in_description dinner)
        (in_participants dinner) (in_totalAmount dinner) = Inr (chainResult 7 hash1)"
    by (simp add: chainEnv_def)
  have f: "findByTxHash [] (bc_txHash (chainResult 7 hash1)) = None"
    by (simp add: findByTxHash_def)
  have p: "Split_create (env_insertOk (chainEnv (chainResult 7 hash1) False))
        (env_now (chainEnv (chainResult 7 hash1) False)) []
        (newSplit (env_now (chainEnv (chainResult 7 hash1) False)) addrA dinner
           (chainResult 7 hash1) (Fin 1)) = Inl WriteFailed"
    by code_simp
  have r: "(if bc_splitId (chainResult 7 hash1) \<noteq> 0
            then numberOfBigInt (bc_splitId (chainResult 7 hash1)) else Fin 1) = Fin 7"
    "bc_splitAddress (chainResult 7 hash1) = addrD" "bc_txHash (chainResult 7 hash1) = hash1"
    by (simp_all add: chainResult_def numberOfBigInt_def dround_numeral)
  show ?thesis
    using v a d f p createSplit_persistence_failure_returns [OF v a d f p, of "[]"] r by simp
qed

text \<open>
  C2, as the claim states it, fails when the blockchain's identifier is \<open>0\<close>: the
  deployment returns, the insert fails, and the identifier returned is \<open>1\<close>, allocated from
  the empty store, not the blockchain's.
\<close>

theorem createSplit_chain_id_counterexample:
  "env_deploy (chainEnv (chainResult 0 hash1) False) addrA (in_description dinner)
        (in_participants dinner) (in_totalAmount dinner) = Inr (chainResult 0 hash1)
   \<and> findByTxHash [] (bc_txHash (chainResult 0 hash1)) = None
   \<and> Split_create False 1000 []
        (newSplit 1000 addrA dinner (chainResult 0 hash1) (Fin 1)) = Inl WriteFailed
   \<and> fst (createSplit (chainEnv (chainResult 0 hash1) False) [] [] addrA dinner) =
        Inr \<lparr> res_splitId = Fin 1, res_contractAddress = addrD, res_txHash = hash1 \<rparr>
   \<and> fst (createSplit (chainEnv (chainResult 0 hash1) False) [] [] addrA dinner) \<noteq>
        Inr \<lparr> res_splitId = numberOfBigInt (bc_splitId (chainResult 0 hash1)),
               res_contractAddress = bc_splitAddress (chainResult 0 hash1),
               res_txHash = bc_txHash (chainResult 0 hash1) \<rparr>"
proof -
  have d: "env_deploy (chainEnv (chainResult 0 hash1) False) addrA (in_description dinner)
        (in_participants dinner) (in_totalAmount dinner) = Inr (chainResult 0 hash1)"
    by (simp add: chainEnv_def)
  have f: "findByTxHash [] (bc_txHash (chainResult 0 hash1)) = None"
    by (simp add: findByTxHash_def)
  have p: "Split_create False 1000 []
        (newSplit 1000 addrA dinner (chainResult 0 hash1) (Fin 1)) = Inl WriteFailed"
    by code_simp
  have c: "fst (createSplit (chainEnv (chainResult 0 hash1) False) [] [] addrA dinner) =
        Inr \<lparr> res_splitId = Fin 1, res_contractAddress = addrD, res_txHash = hash1 \<rparr>"
    by code_simp
  have n: "numberOfBigInt (bc_splitId (chainResult 0 hash1)) = Fin 0"
    by (simp add: chainResult_def numberOfBigInt_def dround_0)
  show ?thesis
    using d f p c n by simp
qed

text \<open>
  C1. Two creations that get the same transaction hash, on the path with the blockchain
  collaborator. The first stores its split. In the second the hash is found in the store,
  the error \<^verbatim>\<open>Transaction hash ... already exists in database\<close> is thrown and then caught
  (the deployment had returned), and the call returns the blockchain's data instead of
  failing; the store keeps its one split.
\<close>

theorem createSplit_duplicate_txHash_returns:
  "createSplit (chainEnv (chainResult 7 hash1) True) [] [] addrA dinner =
       (Inr \<lparr> res_splitId = Fin 7, res_contractAddress = addrD, res_txHash = hash1 \<rparr>,
        [storedSplit 7 hash1 addrA 1000], [])
   \<and> findByTxHash [storedSplit 7 hash1 addrA 1000] hash1 \<noteq> None
   \<and> persistSplit (chainEnv (chainResult 8 hash1) True) [storedSplit 7 hash1 addrA 1000] addrB
        dinner (chainResult 8 hash1) (Fin 8) = Inl (TxHashExists hash1)
   \<and> createSplit (chainEnv (chainResult 8 hash1) True) [storedSplit 7 hash1 addrA 1000] []
        addrB dinner =
       (Inr \<lparr> res_splitId = Fin 8, res_contractAddress = addrD, res_txHash = hash1 \<rparr>,
        [storedSplit 7 hash1 addrA 1000], [])"
proof -
  have a: "createSplit (chainEnv (chainResult 7 hash1) True) [] [] addrA dinner =
       (Inr \<lparr> res_splitId = Fin 7, res_contractAddress = addrD, res_txHash = hash1 \<rparr>,
        [storedSplit 7 hash1 addrA 1000], [])"
    by code_simp
  have f: "findByTxHash [storedSplit 7 hash1 addrA 1000] hash1 \<noteq> None"
    by code_simp
  have p: "persistSplit (chainEnv (chainResult 8 hash1) True) [storedSplit 7 hash1 addrA 1000]
        addrB dinner (chainResult 8 hash1) (Fin 8) = Inl (TxHashExists hash1)"
    by code_simp
  have c: "createSplit (chainEnv (chainResult 8 hash1) True) [storedSplit 7 hash1 addrA 1000] []
        addrB dinner =
       (Inr \<lparr> res_splitId = Fin 8, res_contractAddress = addrD, res_txHash = hash1 \<rparr>,
        [storedSplit 7 hash1 addrA 1000], [])"
    by code_simp
  show ?thesis
    using a f p c by simp
qed

text \<open>
  The same holds for every call: a stored transaction hash never makes \<^verbatim>\<open>createSplit\<close>
  throw on this path, and never adds a split.
\<close>

lemma createSplit_txHash_conflict_caught:
  assumes "validateCreateSplit creator splitData = Inr nc"
    and "allocateSplitId store store = Inr sid"
    and "env_deploy env nc (in_description splitData) (in_participants splitData)
           (in_totalAmount splitData) = Inr bc"
    and "findByTxHash store (bc_txHash bc) \<noteq> None"
  shows "\<not> isl (fst (createSplit env store users creator splitData))
         \<and> snd (createSplit env store users creator splitData) = (store, users)"
  using assms by (simp add: createSplit_def persistSplit_def)

text \<open>
  The placeholder path: a first draw that is already stored is replaced by the second
  draw, and the split is stored under it.
\<close>

lemma createSplitPlaceholder_regenerates:
  "map txHash (fst (snd (createSplitPlaceholder (chainEnv (chainResult 0 hash1) True)
        hash1 hash2 (Fin 18000001) [storedSplit 1 hash1 addrA 100] [] addrA dinner)))
     = [hash1, hash2]
   \<and> fst (createSplitPlaceholder (chainEnv (chainResult 0 hash1) True)
        hash1 hash2 (Fin 18000001) [storedSplit 1 hash1 addrA 100] [] addrA dinner)
     = Inr (Fin 2, ''0x0000000000000000000000000000000000000000'')"
  by code_simp

text \<open>
  The specification's example: the dinner is created, stored with two unpaid participants
  and the status \<open>pending\<close>, and found again by its identifier.
\<close>

lemma createSplit_dinner:
  "fst (createSplit (chainEnv (chainResult 7 hash1) True) [] [] addrA dinner)
     = Inr \<lparr> res_splitId = Fin 7, res_contractAddress = addrD, res_txHash = hash1 \<rparr>
   \<and> map_option (\<lambda>s. (status s, map hasPaid (participants s)))
        (getSplitById
           (fst (snd (createSplit (chainEnv (chainResult 7 hash1) True) [] [] addrA dinner)))
           (Fin 7))
     = Some (Pending, [False, False])"
  by code_simp

text \<open>
  A description of white space only, the no-break space included, is empty once trimmed:
  the document is refused, and the call returns the blockchain's data.
\<close>

lemma createSplit_blank_description:
  "createSplit (chainEnv (chainResult 7 hash1) True) [] [] addrA
     (dinner \<lparr> in_description := [CHR 0x20, CHR 0xA0, CHR 0x09] \<rparr>)
   = (Inr \<lparr> res_splitId = Fin 7, res_contractAddress = addrD, res_txHash = hash1 \<rparr>, [], [])"
  by code_simp

section \<open>Retrieval of splits\<close>

text \<open>
  Without skip and limit, \<^verbatim>\<open>getSplits\<close> lists what the specification asks for: the two
  listings merged, one split per identifier, newest first.
\<close>

lemma mergedSplits_unpaged:
  assumes "opt_skip options = None" and "opt_limit options = None"
  shows "mergedSplits store (toLowerCase wallet) options = spec_getSplits store wallet options"
proof -
  have o: "options\<lparr> opt_limit := None, opt_skip := None \<rparr> = options"
    using assms by simp
  show ?thesis
    by (simp add: mergedSplits_def spec_getSplits_def getSplitsByCreator_def o Let_def)
qed

text \<open>
  C4. A creator with two splits asks for the second page of one (skip 1). The merged,
  sorted listing is the split of date 200, then the split of date 100, so the
  specification's answer is the split of date 100. \<^verbatim>\<open>getSplits\<close> passes the options to
  both queries, which skip the newest split, and then skips again on the merged list: its
  answer is empty.
\<close>

theorem getSplits_skips_twice:
  "map splitId (getSplitsByCreator twoSplits addrA noOptions) = [Fin 2, Fin 1]
   \<and> findByParticipant twoSplits addrA noOptions = []
   \<and> map splitId (spec_getSplits twoSplits addrA skipOne) = [Fin 1]
   \<and> map splitId (findByCreator twoSplits addrA skipOne) = [Fin 1]
   \<and> mergedSplits twoSplits addrA skipOne = []
   \<and> getSplits twoSplits [] addrA skipOne = Inr []"
proof -
  have a: "map splitId (getSplitsByCreator twoSplits addrA noOptions) = [Fin 2, Fin 1]"
    by code_simp
  have b: "findByParticipant twoSplits addrA noOptions = []"
    by code_simp
  have c: "map splitId (spec_getSplits twoSplits addrA skipOne) = [Fin 1]"
    by code_simp
  have d: "map splitId (findByCreator twoSplits addrA skipOne) = [Fin 1]"
    by code_simp
  have e: "mergedSplits twoSplits addrA skipOne = []"
    by code_simp
  have f: "getSplits twoSplits [] addrA skipOne = Inr []"
    by code_simp
  show ?thesis
    using a b c d e f by simp
qed

text \<open>
  A participant's view of the same store: both splits, newest first, each with the
  creator's address, \<^verbatim>\<open>isCreator\<close> false and \<^verbatim>\<open>youPaid\<close> false.
\<close>

lemma getSplits_participant_view:
  "map_sum id (map (\<lambda>e. (splitId (es_split e), es_isCreator e, es_creatorAddress e, es_youPaid e)))
     (getSplits twoSplits [] addrB noOptions)
   = Inr [(Fin 2, False, Some addrA, False), (Fin 1, False, Some addrA, False)]"
  by code_simp

end
